theory Spec2Isabelle
  imports Main "HOL-Library.Multiset"
begin

section \<open>Data model\<close>

text \<open>
  The backend is a Django application. A model instance is a record, a table is the list
  of its rows in insertion order, a dictionary (\<open>Dict[str, Any]\<close>) is an association list
  in insertion order, and every exception is a value of \<open>error\<close>. The values carried by
  the dictionaries are texts, as the serializers deliver them for the text columns; a
  date is its ISO text. Column length limits and value formats are enforced by the
  database engine and by the framework's field validators and are outside this model.
\<close>

text \<open>A UUID is its canonical text, so that \<open>str(user.id)\<close> is the key itself.\<close>

type_synonym uuid = string

type_synonym pydict = "(string \<times> string) list"

text \<open>A stored password is opaque: \<open>Hashed p\<close> is what \<open>set_password(p)\<close> leaves.\<close>

datatype credential = NoPassword | Hashed string

text \<open>\<open>apps/users/models.py\<close>, class \<open>User\<close>. \<open>birth_date\<close> is a \<open>DateField\<close> without
  default: it is \<open>None\<close> on an instance built without it, and the column is \<open>NOT NULL\<close>.\<close>

record user =
  user_id :: uuid
  full_name :: string
  id_type :: string
  id_number :: string
  birth_date :: "string option"
  phone :: string
  address :: "string option"
  profile_photo_url :: "string option"
  email_primary :: string
  email_secondary :: "string option"
  role :: string
  status :: string
  password :: credential
  created_at :: nat
  updated_at :: nat
  last_login_at :: "nat option"

text \<open>\<open>User.Role\<close> and \<open>User.Status\<close> are \<open>TextChoices\<close>: their members are the texts
  stored in the \<open>CharField\<close> columns \<open>role\<close> and \<open>status\<close>.\<close>

definition Role_ADMIN :: string where "Role_ADMIN = ''ADMIN''"
definition Role_CLIENT :: string where "Role_CLIENT = ''CLIENT''"
definition Role_INTERVENTORIA :: string where "Role_INTERVENTORIA = ''INTERVENTORIA''"
definition Role_SUPERVISOR :: string where "Role_SUPERVISOR = ''SUPERVISOR''"

definition Role_choices :: "string list" where
  "Role_choices = [Role_ADMIN, Role_CLIENT, Role_INTERVENTORIA, Role_SUPERVISOR]"

definition Status_ACTIVE :: string where "Status_ACTIVE = ''ACTIVE''"
definition Status_SUSPENDED :: string where "Status_SUSPENDED = ''SUSPENDED''"

definition Status_choices :: "string list" where
  "Status_choices = [Status_ACTIVE, Status_SUSPENDED]"

text \<open>Audit metadata is a JSON object; an object keeps its keys in insertion order.\<close>

datatype json =
    JNull
  | JBool bool
  | JNum nat
  | JStr string
  | JList "json list"
  | JObj "(string \<times> json) list"

text \<open>\<open>apps/audit/models.py\<close>, class \<open>AuditLog\<close>. \<open>actor_user\<close> is the nullable foreign
  key, held as the actor's primary key.\<close>

record audit_log =
  log_id :: uuid
  actor_user :: "uuid option"
  action :: string
  entity :: string
  entity_id :: "uuid option"
  metadata :: "(string \<times> json) list"
  ip_address :: "string option"
  log_created_at :: nat

definition USER_REGISTERED :: string where "USER_REGISTERED = ''USER_REGISTERED''"
definition USER_CREATED_BY_ADMIN :: string where "USER_CREATED_BY_ADMIN = ''USER_CREATED_BY_ADMIN''"
definition USER_UPDATED_BY_ADMIN :: string where "USER_UPDATED_BY_ADMIN = ''USER_UPDATED_BY_ADMIN''"
definition USER_UPDATED_SELF :: string where "USER_UPDATED_SELF = ''USER_UPDATED_SELF''"
definition USER_SUSPENDED :: string where "USER_SUSPENDED = ''USER_SUSPENDED''"
definition USER_ACTIVATED :: string where "USER_ACTIVATED = ''USER_ACTIVATED''"

text \<open>Exceptions. A \<open>ValidationError\<close> carries its message; the message that lists field
  names joins a Python set, whose order is unspecified, so it is kept as the set.\<close>

datatype validation_msg =
    PasswordRequired
  | EmailInUse
  | ProhibitedFields "string set"
  | NoValidFields
  | InvalidValue string

datatype error =
    ValidationError validation_msg
  | PermissionDenied
  | IntegrityError
  | DatabaseError
  | DoesNotExist
  | KeyError string
  | ValueError
  | TypeError
  | AttributeError
  | TokenError

text \<open>The logger's output: the level of each record and a label of the call that wrote
  it (the message texts are not modelled).\<close>

datatype level = DEBUG | INFO | WARNING | ERROR

text \<open>The world an operation runs in: the two tables, the logger's output, the clock, and
  whether the audit table and the token service accept a request (the environment decides;
  no operation changes these two).\<close>

record state =
  users :: "user list"
  audit_logs :: "audit_log list"
  logger :: "(level \<times> string) list"
  now :: nat
  audit_db_up :: bool
  token_service_up :: bool

definition log_msg :: "level \<Rightarrow> string \<Rightarrow> state \<Rightarrow> state" where
  "log_msg l m s = s\<lparr>logger := logger s @ [(l, m)]\<rparr>"

section \<open>Audit logger\<close>

text \<open>A fresh primary key (\<open>uuid.uuid4\<close>): one that no row of the table carries.\<close>

definition fresh_id :: "uuid list \<Rightarrow> uuid" where
  "fresh_id ids = replicate (Suc (fold max (map length ids) 0)) (CHR ''0'')"

text \<open>\<open>AuditLog.objects.create(...)\<close>: inserts the row, or raises when the database
  refuses it.\<close>

definition AuditLog_objects_create ::
  "uuid option \<Rightarrow> string \<Rightarrow> string \<Rightarrow> uuid option \<Rightarrow> (string \<times> json) list \<Rightarrow> string option
     \<Rightarrow> state \<Rightarrow> (error + audit_log) \<times> state" where
  "AuditLog_objects_create actor act ent ent_id md ip s =
     (if audit_db_up s then
        (let row = \<lparr>log_id = fresh_id (map log_id (audit_logs s)), actor_user = actor,
                      action = act, entity = ent, entity_id = ent_id, metadata = md,
                      ip_address = ip, log_created_at = now s\<rparr>
         in (Inr row, s\<lparr>audit_logs := audit_logs s @ [row]\<rparr>))
      else (Inl DatabaseError, s))"

text \<open>\<open>apps/audit/services/audit_log.py\<close>: the body of the \<open>try\<close> block of
  \<open>log_audit_event\<close>.\<close>

definition log_audit_event_try ::
  "uuid option \<Rightarrow> string \<Rightarrow> string \<Rightarrow> uuid option \<Rightarrow> (string \<times> json) list option
     \<Rightarrow> string option \<Rightarrow> state \<Rightarrow> (error + audit_log option) \<times> state" where
  "log_audit_event_try actor act ent ent_id md ip s =
     (if act = [] \<or> ent = [] then
        (Inr None, log_msg WARNING ''audit_log: missing action or entity'' s)
      else
        (case AuditLog_objects_create actor act ent ent_id
                (case md of None \<Rightarrow> [] | Some m \<Rightarrow> m) ip s of
           (Inl e, s') \<Rightarrow> (Inl e, s')
         | (Inr row, s') \<Rightarrow> (Inr (Some row), log_msg DEBUG ''audit_log: created'' s')))"

text \<open>\<open>log_audit_event\<close>: the \<open>try\<close> block under its \<open>except Exception\<close> handler.\<close>

definition log_audit_event ::
  "uuid option \<Rightarrow> string \<Rightarrow> string \<Rightarrow> uuid option \<Rightarrow> (string \<times> json) list option
     \<Rightarrow> string option \<Rightarrow> state \<Rightarrow> (error + audit_log option) \<times> state" where
  "log_audit_event actor act ent ent_id md ip s =
     (case log_audit_event_try actor act ent ent_id md ip s of
        (Inl e, s') \<Rightarrow> (Inr None, log_msg ERROR ''audit_log: create failed'' s')
      | (Inr r, s') \<Rightarrow> (Inr r, s'))"

section \<open>Text and dictionary primitives\<close>

text \<open>\<open>str.lower\<close> and \<open>str.strip\<close> on ASCII text.\<close>

definition lower_char :: "char \<Rightarrow> char" where
  "lower_char c = (let n = (of_char c :: nat) in if 65 \<le> n \<and> n \<le> 90 then char_of (n + 32) else c)"

definition lower :: "string \<Rightarrow> string" where
  "lower s = map lower_char s"

definition is_space :: "char \<Rightarrow> bool" where
  "is_space c = (let n = (of_char c :: nat) in (9 \<le> n \<and> n \<le> 13) \<or> (28 \<le> n \<and> n \<le> 32))"

definition strip :: "string \<Rightarrow> string" where
  "strip s = rev (dropWhile is_space (rev (dropWhile is_space s)))"

text \<open>\<open>d.get(k)\<close>, \<open>d.pop(k, None)\<close> and \<open>d.setdefault(k, v)\<close>.\<close>

definition dict_get :: "pydict \<Rightarrow> string \<Rightarrow> string option" where
  "dict_get d k = map_of d k"

definition dict_pop :: "string \<Rightarrow> pydict \<Rightarrow> string option \<times> pydict" where
  "dict_pop k d = (map_of d k, filter (\<lambda>kv. fst kv \<noteq> k) d)"

definition dict_setdefault :: "string \<Rightarrow> string \<Rightarrow> pydict \<Rightarrow> pydict" where
  "dict_setdefault k v d = (if k \<in> fst ` set d then d else d @ [(k, v)])"

text \<open>Python's truth value of an optional text: \<open>None\<close> and \<open>''\<close> are false.\<close>

definition truthy :: "string option \<Rightarrow> bool" where
  "truthy v = (case v of None \<Rightarrow> False | Some t \<Rightarrow> t \<noteq> [])"

section \<open>The user table\<close>

text \<open>\<open>User.objects.get(id=user_id)\<close>.\<close>

definition User_objects_get :: "uuid \<Rightarrow> state \<Rightarrow> error + user" where
  "User_objects_get i s =
     (case find (\<lambda>r. user_id r = i) (users s) of None \<Rightarrow> Inl DoesNotExist | Some u \<Rightarrow> Inr u)"

text \<open>The constraints of the table that \<open>models.py\<close> declares: \<open>email_primary\<close> is unique
  and so is the pair \<open>(id_type, id_number)\<close>.\<close>

definition unique_violation :: "user \<Rightarrow> user list \<Rightarrow> bool" where
  "unique_violation u rows =
     (\<exists>r \<in> set rows. user_id r \<noteq> user_id u \<and>
        (email_primary r = email_primary u \<or>
         (id_type r = id_type u \<and> id_number r = id_number u)))"

text \<open>\<open>user.save()\<close>. An instance that was built and never saved (\<open>adding\<close>) is inserted;
  one that was loaded from the table updates the row that carries its key, and is
  inserted when there is no such row. \<open>updated_at\<close> is \<open>auto_now\<close>, \<open>created_at\<close> is
  \<open>auto_now_add\<close>. The database refuses a row that breaks a constraint, the primary key
  included, with \<open>IntegrityError\<close>.\<close>

definition User_save :: "bool \<Rightarrow> user \<Rightarrow> state \<Rightarrow> (error + user) \<times> state" where
  "User_save adding u s =
     (if birth_date u = None \<or> unique_violation u (users s) \<or>
         (adding \<and> user_id u \<in> user_id ` set (users s))
      then (Inl IntegrityError, s)
      else if user_id u \<in> user_id ` set (users s) then
        (let u' = u\<lparr>updated_at := now s\<rparr>
         in (Inr u', s\<lparr>users := map (\<lambda>r. if user_id r = user_id u then u' else r) (users s)\<rparr>))
      else
        (let u' = u\<lparr>created_at := now s, updated_at := now s\<rparr>
         in (Inr u', s\<lparr>users := users s @ [u']\<rparr>)))"

definition set_password :: "user \<Rightarrow> string \<Rightarrow> user" where
  "set_password u p = u\<lparr>password := Hashed p\<rparr>"


text \<open>The attributes of a \<open>User\<close> instance that \<open>models.py\<close> declares: the text columns,
  the columns the framework manages, and the read-only properties. Attributes inherited
  from the framework's base classes, and the methods, are outside the model: \<open>hasattr\<close> is
  false for them here.\<close>

definition text_columns :: "string list" where
  "text_columns = [''full_name'', ''id_type'', ''id_number'', ''birth_date'', ''phone'',
     ''address'', ''profile_photo_url'', ''email_primary'', ''email_secondary'', ''role'',
     ''status'']"

definition managed_columns :: "string list" where
  "managed_columns = [''id'', ''created_at'', ''updated_at'', ''last_login_at'']"

definition property_names :: "string list" where
  "property_names = [''username'', ''email'', ''is_active'', ''is_staff'', ''is_superuser'']"

definition hasattr_user :: "string \<Rightarrow> bool" where
  "hasattr_user k = (k \<in> set (text_columns @ managed_columns @ property_names))"

text \<open>\<open>setattr(user, key, value)\<close> with a text value. A property has no setter. A text
  in \<open>created_at\<close>, \<open>updated_at\<close> or \<open>last_login_at\<close> stays on the instance until \<open>save()\<close>
  (see \<open>text_in_time_column\<close>), so the assignment itself changes nothing here.\<close>

definition setattr_user :: "user \<Rightarrow> string \<Rightarrow> string \<Rightarrow> error + user" where
  "setattr_user u k v =
     (if k = ''full_name'' then Inr (u\<lparr>full_name := v\<rparr>)
      else if k = ''id_type'' then Inr (u\<lparr>id_type := v\<rparr>)
      else if k = ''id_number'' then Inr (u\<lparr>id_number := v\<rparr>)
      else if k = ''birth_date'' then Inr (u\<lparr>birth_date := Some v\<rparr>)
      else if k = ''phone'' then Inr (u\<lparr>phone := v\<rparr>)
      else if k = ''address'' then Inr (u\<lparr>address := Some v\<rparr>)
      else if k = ''profile_photo_url'' then Inr (u\<lparr>profile_photo_url := Some v\<rparr>)
      else if k = ''email_primary'' then Inr (u\<lparr>email_primary := v\<rparr>)
      else if k = ''email_secondary'' then Inr (u\<lparr>email_secondary := Some v\<rparr>)
      else if k = ''role'' then Inr (u\<lparr>role := v\<rparr>)
      else if k = ''status'' then Inr (u\<lparr>status := v\<rparr>)
      else if k = ''id'' then Inr (u\<lparr>user_id := v\<rparr>)
      else if k \<in> set property_names then Inl AttributeError
      else Inr u)"

text \<open>The loop \<open>for key, value in data.items(): if hasattr(user, key): setattr(user, key,
  value)\<close>.\<close>

fun setattrs :: "user \<Rightarrow> pydict \<Rightarrow> error + user" where
  "setattrs u [] = Inr u"
| "setattrs u (kv # kvs) =
     (if hasattr_user (fst kv) then
        (case setattr_user u (fst kv) (snd kv) of
           Inl e \<Rightarrow> Inl e
         | Inr u' \<Rightarrow> setattrs u' kvs)
      else setattrs u kvs)"

text \<open>A text left in a date-time column makes \<open>save()\<close> raise \<open>ValidationError\<close> before any
  statement reaches the database; the conversion of a well-formed date-time text is not
  modelled, every text counts as malformed. On an insert \<open>created_at\<close> is overwritten
  first (\<open>auto_now_add\<close>), and \<open>updated_at\<close> always is (\<open>auto_now\<close>).\<close>

definition text_in_time_column :: "string list \<Rightarrow> pydict \<Rightarrow> bool" where
  "text_in_time_column cols d = (\<exists>k \<in> set cols. k \<in> fst ` set d)"

definition save_assigned ::
  "string list \<Rightarrow> pydict \<Rightarrow> bool \<Rightarrow> user \<Rightarrow> state \<Rightarrow> (error + user) \<times> state" where
  "save_assigned cols d adding u s =
     (if text_in_time_column cols d then (Inl (ValidationError (InvalidValue ''datetime'')), s)
      else User_save adding u s)"

text \<open>\<open>BaseUserManager.normalize_email\<close> (the framework's): the domain part, after the
  last \<open>@\<close>, is lowercased; a text without \<open>@\<close> is returned as it is.\<close>

definition normalize_email :: "string \<Rightarrow> string" where
  "normalize_email email =
     (let e = strip email in
      if CHR ''@'' \<in> set e then
        rev (dropWhile (\<lambda>c. c \<noteq> CHR ''@'') (rev e)) @
        lower (rev (takeWhile (\<lambda>c. c \<noteq> CHR ''@'') (rev e)))
      else email)"

text \<open>\<open>User(**kwargs)\<close>: the defaults of the columns, then the keyword arguments; a keyword
  that names a property raises \<open>AttributeError\<close>, one that names no attribute raises
  \<open>TypeError\<close>.\<close>

definition User_default :: "uuid \<Rightarrow> user" where
  "User_default i =
     \<lparr>user_id = i, full_name = [], id_type = [], id_number = [], birth_date = None,
      phone = [], address = None, profile_photo_url = None, email_primary = [],
      email_secondary = None, role = Role_CLIENT, status = Status_ACTIVE,
      password = NoPassword, created_at = 0, updated_at = 0, last_login_at = None\<rparr>"

definition User_init :: "uuid \<Rightarrow> pydict \<Rightarrow> error + user" where
  "User_init i kwargs =
     (if \<exists>k \<in> fst ` set kwargs. k \<in> set property_names then Inl AttributeError
      else if \<exists>k \<in> fst ` set kwargs. \<not> hasattr_user k then Inl TypeError
      else setattrs (User_default i) kwargs)"

text \<open>\<open>UserManager.create_user(email_primary, password, **extra_fields)\<close>.\<close>

definition create_user :: "string \<Rightarrow> string option \<Rightarrow> pydict \<Rightarrow> state \<Rightarrow> (error + user) \<times> state" where
  "create_user email pw extra_fields s =
     (if email = [] then (Inl ValueError, s)
      else
        (case User_init (fresh_id (map user_id (users s)))
                ((''email_primary'', normalize_email email) # extra_fields) of
           Inl e \<Rightarrow> (Inl e, s)
         | Inr u \<Rightarrow>
             save_assigned [''last_login_at''] extra_fields True
               (if truthy pw then set_password u (the pw) else u) s))"

section \<open>User services\<close>

text \<open>\<open>apps/users/services/users.py\<close>. Each service is the body of its \<open>try\<close> block and,
  around it, the handlers that log and raise again. A call of \<open>log_audit_event\<close> passes an
  exception on, should it raise one.\<close>

definition SELF_EDITABLE_FIELDS :: "string set" where
  "SELF_EDITABLE_FIELDS = {''full_name'', ''phone'', ''address'', ''email_secondary'',
     ''profile_photo_url'', ''password''}"

definition SELF_PROHIBITED_FIELDS :: "string set" where
  "SELF_PROHIBITED_FIELDS = {''role'', ''status'', ''email_primary'', ''id_type'', ''id_number'',
     ''birth_date'', ''created_at'', ''updated_at'', ''last_login_at''}"

definition register_user_try :: "pydict \<Rightarrow> string option \<Rightarrow> state \<Rightarrow> (error + user) \<times> state" where
  "register_user_try data ip s =
     (case dict_pop ''password'' data of
        (pw, data1) \<Rightarrow>
          if \<not> truthy pw then (Inl (ValidationError PasswordRequired), s)
          else
            (let data2 = dict_setdefault ''role'' Role_CLIENT data1;
                 data3 = dict_setdefault ''status'' Status_ACTIVE data2
             in case dict_pop ''email_primary'' data3 of
                  (None, data4) \<Rightarrow> (Inl (KeyError ''email_primary''), s)
                | (Some email, data4) \<Rightarrow>
                    (case create_user email pw data4 s of
                       (Inl e, s1) \<Rightarrow> (Inl e, s1)
                     | (Inr u, s1) \<Rightarrow>
                         (case log_audit_event (Some (user_id u)) USER_REGISTERED ''User''
                                 (Some (user_id u))
                                 (Some [(''email'', JStr (email_primary u)),
                                        (''role'', JStr (role u))]) ip s1 of
                            (Inl e, s2) \<Rightarrow> (Inl e, s2)
                          | (Inr _, s2) \<Rightarrow>
                              (Inr u, log_msg INFO ''register_user: registered'' s2)))))"

definition register_user :: "pydict \<Rightarrow> string option \<Rightarrow> state \<Rightarrow> (error + user) \<times> state" where
  "register_user data ip s =
     (case register_user_try data ip s of
        (Inl e, s') \<Rightarrow>
          if e = IntegrityError then
            (Inl (ValidationError EmailInUse), log_msg ERROR ''register_user: integrity error'' s')
          else (Inl e, log_msg ERROR ''register_user: error'' s')
      | (Inr u, s') \<Rightarrow> (Inr u, s'))"

definition create_user_by_admin_try ::
  "pydict \<Rightarrow> user \<Rightarrow> string option \<Rightarrow> state \<Rightarrow> (error + user) \<times> state" where
  "create_user_by_admin_try data actor ip s =
     (case dict_pop ''password'' data of
        (pw, data1) \<Rightarrow>
          if \<not> truthy pw then (Inl (ValidationError PasswordRequired), s)
          else
            (case dict_pop ''email_primary'' data1 of
               (None, data2) \<Rightarrow> (Inl (KeyError ''email_primary''), s)
             | (Some email, data2) \<Rightarrow>
                 (case create_user email pw data2 s of
                    (Inl e, s1) \<Rightarrow> (Inl e, s1)
                  | (Inr u, s1) \<Rightarrow>
                      (case log_audit_event (Some (user_id actor)) USER_CREATED_BY_ADMIN ''User''
                              (Some (user_id u))
                              (Some [(''created_user_email'', JStr (email_primary u)),
                                     (''created_user_role'', JStr (role u)),
                                     (''created_user_status'', JStr (status u)),
                                     (''created_by'', JStr (user_id actor))]) ip s1 of
                         (Inl e, s2) \<Rightarrow> (Inl e, s2)
                       | (Inr _, s2) \<Rightarrow>
                           (Inr u, log_msg INFO ''create_user_by_admin: created'' s2)))))"

definition create_user_by_admin ::
  "pydict \<Rightarrow> user \<Rightarrow> string option \<Rightarrow> state \<Rightarrow> (error + user) \<times> state" where
  "create_user_by_admin data actor ip s =
     (if role actor \<noteq> Role_ADMIN then (Inl PermissionDenied, s)
      else
        (case create_user_by_admin_try data actor ip s of
           (Inl e, s') \<Rightarrow>
             if e = IntegrityError then
               (Inl (ValidationError EmailInUse),
                log_msg ERROR ''create_user_by_admin: integrity error'' s')
             else (Inl e, log_msg ERROR ''create_user_by_admin: error'' s')
         | (Inr u, s') \<Rightarrow> (Inr u, s')))"

text \<open>The diff of \<open>role\<close>, \<open>status\<close> and \<open>email_primary\<close> that \<open>update_user_by_admin\<close> puts
  under \<open>changes\<close>: the instance as loaded against the instance as saved.\<close>

definition changes_of :: "user \<Rightarrow> user \<Rightarrow> (string \<times> json) list" where
  "changes_of old new =
     (if role old \<noteq> role new
      then [(''role'', JObj [(''old'', JStr (role old)), (''new'', JStr (role new))])] else []) @
     (if status old \<noteq> status new
      then [(''status'', JObj [(''old'', JStr (status old)), (''new'', JStr (status new))])]
      else []) @
     (if email_primary old \<noteq> email_primary new
      then [(''email_primary'',
             JObj [(''old'', JStr (email_primary old)), (''new'', JStr (email_primary new))])]
      else [])"

definition admin_update_metadata :: "user \<Rightarrow> user \<Rightarrow> user \<Rightarrow> (string \<times> json) list" where
  "admin_update_metadata old new actor =
     [(''updated_user_id'', JStr (user_id new)),
      (''updated_user_email'', JStr (email_primary new)),
      (''updated_by'', JStr (user_id actor))] @
     (if changes_of old new \<noteq> [] then [(''changes'', JObj (changes_of old new))] else [])"

definition update_user_by_admin_try ::
  "uuid \<Rightarrow> pydict \<Rightarrow> user \<Rightarrow> string option \<Rightarrow> state \<Rightarrow> (error + user) \<times> state" where
  "update_user_by_admin_try uid data actor ip s =
     (case User_objects_get uid s of
        Inl e \<Rightarrow> (Inl e, s)
      | Inr u \<Rightarrow>
          (case dict_pop ''password'' data of
             (pw, data1) \<Rightarrow>
               (case setattrs u data1 of
                  Inl e \<Rightarrow> (Inl e, s)
                | Inr u1 \<Rightarrow>
                    (case save_assigned [''created_at'', ''last_login_at''] data1 False
                            (if truthy pw then set_password u1 (the pw) else u1) s of
                       (Inl e, s1) \<Rightarrow> (Inl e, s1)
                     | (Inr u2, s1) \<Rightarrow>
                         (case log_audit_event (Some (user_id actor)) USER_UPDATED_BY_ADMIN
                                 ''User'' (Some (user_id u2))
                                 (Some (admin_update_metadata u u2 actor)) ip s1 of
                            (Inl e, s2) \<Rightarrow> (Inl e, s2)
                          | (Inr _, s2) \<Rightarrow>
                              (Inr u2, log_msg INFO ''update_user_by_admin: updated'' s2))))))"

definition update_user_by_admin ::
  "uuid \<Rightarrow> pydict \<Rightarrow> user \<Rightarrow> string option \<Rightarrow> state \<Rightarrow> (error + user) \<times> state" where
  "update_user_by_admin uid data actor ip s =
     (if role actor \<noteq> Role_ADMIN then (Inl PermissionDenied, s)
      else
        (case update_user_by_admin_try uid data actor ip s of
           (Inl e, s') \<Rightarrow>
             if e = DoesNotExist then (Inl e, log_msg ERROR ''update_user_by_admin: not found'' s')
             else (Inl e, log_msg ERROR ''update_user_by_admin: error'' s')
         | (Inr u, s') \<Rightarrow> (Inr u, s')))"

text \<open>\<open>update_self_user\<close>. The dictionary \<open>old_values\<close> that the source builds is never read.\<close>

definition update_self_user_try ::
  "user \<Rightarrow> pydict \<Rightarrow> string option \<Rightarrow> state \<Rightarrow> (error + user) \<times> state" where
  "update_self_user_try u allowed_data ip s =
     (case dict_pop ''password'' allowed_data of
        (pw, allowed1) \<Rightarrow>
          (case setattrs u allowed1 of
             Inl e \<Rightarrow> (Inl e, s)
           | Inr u1 \<Rightarrow>
               (case User_save False (if truthy pw then set_password u1 (the pw) else u1) s of
                  (Inl e, s1) \<Rightarrow> (Inl e, s1)
                | (Inr u2, s1) \<Rightarrow>
                    (case log_audit_event (Some (user_id u2)) USER_UPDATED_SELF ''User''
                            (Some (user_id u2))
                            (Some ([(''updated_fields'', JList (map (\<lambda>kv. JStr (fst kv)) allowed1))] @
                                   (if truthy pw then [(''password_changed'', JBool True)] else [])))
                            ip s1 of
                       (Inl e, s2) \<Rightarrow> (Inl e, s2)
                     | (Inr _, s2) \<Rightarrow>
                         (Inr u2, log_msg INFO ''update_self_user: updated'' s2)))))"

definition update_self_user ::
  "user \<Rightarrow> pydict \<Rightarrow> string option \<Rightarrow> state \<Rightarrow> (error + user) \<times> state" where
  "update_self_user u data ip s =
     (let prohibited_fields = fst ` set data \<inter> SELF_PROHIBITED_FIELDS in
      if prohibited_fields \<noteq> {} then
        (Inl (ValidationError (ProhibitedFields prohibited_fields)), s)
      else
        (let allowed_data = filter (\<lambda>kv. fst kv \<in> SELF_EDITABLE_FIELDS) data in
         if allowed_data = [] then (Inl (ValidationError NoValidFields), s)
         else
           (case update_self_user_try u allowed_data ip s of
              (Inl e, s') \<Rightarrow> (Inl e, log_msg ERROR ''update_self_user: error'' s')
            | (Inr u', s') \<Rightarrow> (Inr u', s'))))"

definition suspend_user_try :: "uuid \<Rightarrow> user \<Rightarrow> string option \<Rightarrow> state \<Rightarrow> (error + user) \<times> state" where
  "suspend_user_try uid actor ip s =
     (case User_objects_get uid s of
        Inl e \<Rightarrow> (Inl e, s)
      | Inr u \<Rightarrow>
          if status u = Status_SUSPENDED then
            (Inr u, log_msg WARNING ''suspend_user: already suspended'' s)
          else
            (case User_save False (u\<lparr>status := Status_SUSPENDED\<rparr>) s of
               (Inl e, s1) \<Rightarrow> (Inl e, s1)
             | (Inr u1, s1) \<Rightarrow>
                 (case log_audit_event (Some (user_id actor)) USER_SUSPENDED ''User''
                         (Some (user_id u1))
                         (Some [(''suspended_user_email'', JStr (email_primary u1)),
                                (''suspended_by'', JStr (user_id actor))]) ip s1 of
                    (Inl e, s2) \<Rightarrow> (Inl e, s2)
                  | (Inr _, s2) \<Rightarrow> (Inr u1, log_msg INFO ''suspend_user: suspended'' s2))))"

definition suspend_user :: "uuid \<Rightarrow> user \<Rightarrow> string option \<Rightarrow> state \<Rightarrow> (error + user) \<times> state" where
  "suspend_user uid actor ip s =
     (if role actor \<noteq> Role_ADMIN then (Inl PermissionDenied, s)
      else
        (case suspend_user_try uid actor ip s of
           (Inl e, s') \<Rightarrow>
             if e = DoesNotExist then (Inl e, log_msg ERROR ''suspend_user: not found'' s')
             else (Inl e, log_msg ERROR ''suspend_user: error'' s')
         | (Inr u, s') \<Rightarrow> (Inr u, s')))"

definition activate_user_try :: "uuid \<Rightarrow> user \<Rightarrow> string option \<Rightarrow> state \<Rightarrow> (error + user) \<times> state" where
  "activate_user_try uid actor ip s =
     (case User_objects_get uid s of
        Inl e \<Rightarrow> (Inl e, s)
      | Inr u \<Rightarrow>
          if status u = Status_ACTIVE then
            (Inr u, log_msg WARNING ''activate_user: already active'' s)
          else
            (case User_save False (u\<lparr>status := Status_ACTIVE\<rparr>) s of
               (Inl e, s1) \<Rightarrow> (Inl e, s1)
             | (Inr u1, s1) \<Rightarrow>
                 (case log_audit_event (Some (user_id actor)) USER_ACTIVATED ''User''
                         (Some (user_id u1))
                         (Some [(''activated_user_email'', JStr (email_primary u1)),
                                (''activated_by'', JStr (user_id actor))]) ip s1 of
                    (Inl e, s2) \<Rightarrow> (Inl e, s2)
                  | (Inr _, s2) \<Rightarrow> (Inr u1, log_msg INFO ''activate_user: activated'' s2))))"

definition activate_user :: "uuid \<Rightarrow> user \<Rightarrow> string option \<Rightarrow> state \<Rightarrow> (error + user) \<times> state" where
  "activate_user uid actor ip s =
     (if role actor \<noteq> Role_ADMIN then (Inl PermissionDenied, s)
      else
        (case activate_user_try uid actor ip s of
           (Inl e, s') \<Rightarrow>
             if e = DoesNotExist then (Inl e, log_msg ERROR ''activate_user: not found'' s')
             else (Inl e, log_msg ERROR ''activate_user: error'' s')
         | (Inr u, s') \<Rightarrow> (Inr u, s')))"

section \<open>User selectors\<close>

text \<open>\<open>apps/users/selectors/users.py\<close>. A query set is the list of the rows it yields.\<close>

definition ALLOWED_LIST_ROLES :: "string set" where
  "ALLOWED_LIST_ROLES = {Role_ADMIN, Role_SUPERVISOR, Role_INTERVENTORIA}"

text \<open>The lookup \<open>__icontains\<close>: the term occurs in the column, letter case ignored.\<close>

fun contains :: "string \<Rightarrow> string \<Rightarrow> bool" where
  "contains [] t = (t = [])"
| "contains (c # cs) t = (take (length t) (c # cs) = t \<or> contains cs t)"

definition icontains :: "string \<Rightarrow> string \<Rightarrow> bool" where
  "icontains col t = contains (lower col) (lower t)"

definition search_match :: "string \<Rightarrow> user \<Rightarrow> bool" where
  "search_match t u =
     (icontains (full_name u) t \<or> icontains (email_primary u) t \<or>
      icontains (id_number u) t \<or> icontains (phone u) t)"

text \<open>\<open>order_by('-created_at')\<close>; the order of rows created at the same instant is the
  database's choice.\<close>

definition order_by_created_at_desc :: "user list \<Rightarrow> user list" where
  "order_by_created_at_desc q = rev (sort_key created_at q)"

definition filter_by_role :: "pydict \<Rightarrow> user list \<times> state \<Rightarrow> user list \<times> state" where
  "filter_by_role filters qs =
     (case dict_get filters ''role'' of
        None \<Rightarrow> qs
      | Some r \<Rightarrow>
          if r = [] then qs
          else if r \<in> set Role_choices then (filter (\<lambda>u. role u = r) (fst qs), snd qs)
          else (fst qs, log_msg WARNING ''list_users: invalid role'' (snd qs)))"

definition filter_by_status :: "pydict \<Rightarrow> user list \<times> state \<Rightarrow> user list \<times> state" where
  "filter_by_status filters qs =
     (case dict_get filters ''status'' of
        None \<Rightarrow> qs
      | Some st \<Rightarrow>
          if st = [] then qs
          else if st \<in> set Status_choices then (filter (\<lambda>u. status u = st) (fst qs), snd qs)
          else (fst qs, log_msg WARNING ''list_users: invalid status'' (snd qs)))"

definition filter_by_search :: "pydict \<Rightarrow> user list \<times> state \<Rightarrow> user list \<times> state" where
  "filter_by_search filters qs =
     (let search = strip (case dict_get filters ''search'' of None \<Rightarrow> [] | Some t \<Rightarrow> t)
      in if search = [] then qs else (filter (search_match search) (fst qs), snd qs))"

definition list_users :: "pydict option \<Rightarrow> user option \<Rightarrow> state \<Rightarrow> (error + user list) \<times> state" where
  "list_users filters actor_opt s =
     (case actor_opt of
        None \<Rightarrow> (Inl ValueError, s)
      | Some actor \<Rightarrow>
          if role actor \<notin> ALLOWED_LIST_ROLES then
            (Inl PermissionDenied, log_msg WARNING ''list_users: not allowed'' s)
          else
            (let qs = (case filters of
                         None \<Rightarrow> (users s, s)
                       | Some f \<Rightarrow>
                           if f = [] then (users s, s)
                           else filter_by_search f (filter_by_status f (filter_by_role f (users s, s))))
             in (Inr (order_by_created_at_desc (fst qs)),
                 log_msg DEBUG ''list_users: listed'' (snd qs))))"

section \<open>Serializers and authentication views\<close>

















text \<open>\<open>UserMeUpdateSerializer.validate\<close> (\<open>apps/users/serializers.py\<close>).\<close>

definition UserMeUpdateSerializer_PROHIBITED_FIELDS :: "string set" where
  "UserMeUpdateSerializer_PROHIBITED_FIELDS = {''role'', ''status'', ''email_primary'',
     ''id_type'', ''id_number'', ''birth_date'', ''created_at'', ''updated_at'', ''last_login_at''}"

definition UserMeUpdateSerializer_validate :: "pydict \<Rightarrow> error + pydict" where
  "UserMeUpdateSerializer_validate attrs =
     (let prohibited = fst ` set attrs \<inter> UserMeUpdateSerializer_PROHIBITED_FIELDS in
      if prohibited \<noteq> {} then Inl (ValidationError (ProhibitedFields prohibited))
      else Inr attrs)"

section \<open>Table constraints and example data\<close>

text \<open>What the database guarantees of the user table at every moment: the primary key, the
  unique column, the unique pair and the \<open>NOT NULL\<close> date.\<close>

definition table_constraints :: "user list \<Rightarrow> bool" where
  "table_constraints rows =
     (distinct (map user_id rows) \<and> distinct (map email_primary rows) \<and>
      distinct (map (\<lambda>r. (id_type r, id_number r)) rows) \<and>
      (\<forall>r \<in> set rows. birth_date r \<noteq> None))"

text \<open>A small world for the concrete checks: a client, an administrator, and the state
  that holds both.\<close>

definition ana :: user where
  "ana = \<lparr>user_id = ''u1'', full_name = ''Ana Ruiz'', id_type = ''CC'', id_number = ''123'',
     birth_date = Some ''1990-01-01'', phone = ''3000000000'', address = None,
     profile_photo_url = None, email_primary = ''ana@x.com'', email_secondary = None,
     role = ''CLIENT'', status = ''ACTIVE'', password = Hashed ''Secr3t!23'',
     created_at = 5, updated_at = 5, last_login_at = None\<rparr>"

definition root :: user where
  "root = \<lparr>user_id = ''u2'', full_name = ''Root Admin'', id_type = ''CC'', id_number = ''456'',
     birth_date = Some ''1980-02-02'', phone = ''3111111111'', address = None,
     profile_photo_url = None, email_primary = ''root@x.com'', email_secondary = None,
     role = ''ADMIN'', status = ''ACTIVE'', password = Hashed ''r00t!Pass'',
     created_at = 7, updated_at = 7, last_login_at = None\<rparr>"

definition world :: state where
  "world = \<lparr>users = [ana, root], audit_logs = [], logger = [], now = 10,
     audit_db_up = True, token_service_up = True\<rparr>"

section \<open>The listing, as the specification words it\<close>

text \<open>\<open>t\<close> occurs in \<open>x\<close> as a contiguous piece.\<close>

definition is_substring :: "string \<Rightarrow> string \<Rightarrow> bool" where
  "is_substring t x = (\<exists>pre post. x = pre @ t @ post)"

text \<open>The role that a filter map restricts the listing to: its \<open>role\<close> value when that is one
  of the four roles; no restriction otherwise. Likewise for the status.\<close>

definition spec_role_filter :: "pydict \<Rightarrow> string option" where
  "spec_role_filter f =
     (case dict_get f ''role'' of
        None \<Rightarrow> None
      | Some r \<Rightarrow> if r \<in> {''ADMIN'', ''CLIENT'', ''INTERVENTORIA'', ''SUPERVISOR''} then Some r else None)"

definition spec_status_filter :: "pydict \<Rightarrow> string option" where
  "spec_status_filter f =
     (case dict_get f ''status'' of
        None \<Rightarrow> None
      | Some st \<Rightarrow> if st \<in> {''ACTIVE'', ''SUSPENDED''} then Some st else None)"

text \<open>The search term: the \<open>search\<close> value without its surrounding white space.\<close>

definition spec_search_term :: "pydict \<Rightarrow> string" where
  "spec_search_term f = strip (case dict_get f ''search'' of None \<Rightarrow> [] | Some t \<Rightarrow> t)"

text \<open>The users a filter map lists: those of the role and of the status it restricts to,
  in one of whose four columns a non-empty search term occurs, letter case ignored.\<close>

definition spec_listed :: "pydict \<Rightarrow> user \<Rightarrow> bool" where
  "spec_listed f u =
     ((\<forall>r. spec_role_filter f = Some r \<longrightarrow> role u = r) \<and>
      (\<forall>st. spec_status_filter f = Some st \<longrightarrow> status u = st) \<and>
      (spec_search_term f \<noteq> [] \<longrightarrow>
         is_substring (lower (spec_search_term f)) (lower (full_name u)) \<or>
         is_substring (lower (spec_search_term f)) (lower (email_primary u)) \<or>
         is_substring (lower (spec_search_term f)) (lower (id_number u)) \<or>
         is_substring (lower (spec_search_term f)) (lower (phone u))))"

text \<open>The warnings a filter map causes: one for a non-empty \<open>role\<close> value that is no role,
  one for a non-empty \<open>status\<close> value that is no status.\<close>

definition spec_filter_warnings :: "pydict \<Rightarrow> (level \<times> string) list" where
  "spec_filter_warnings f =
     (case dict_get f ''role'' of
        None \<Rightarrow> []
      | Some r \<Rightarrow>
          if r \<noteq> [] \<and> r \<notin> {''ADMIN'', ''CLIENT'', ''INTERVENTORIA'', ''SUPERVISOR''}
          then [(WARNING, ''list_users: invalid role'')] else []) @
     (case dict_get f ''status'' of
        None \<Rightarrow> []
      | Some st \<Rightarrow>
          if st \<noteq> [] \<and> st \<notin> {''ACTIVE'', ''SUSPENDED''}
          then [(WARNING, ''list_users: invalid status'')] else [])"

section \<open>Auxiliary facts\<close>

lemma log_audit_event_not_Inl: "log_audit_event actor act ent ent_id md ip s \<noteq> (Inl e, s')"
  by (auto simp: log_audit_event_def log_audit_event_try_def AuditLog_objects_create_def Let_def)

lemma log_audit_event_up:
  "act \<noteq> [] \<Longrightarrow> ent \<noteq> [] \<Longrightarrow> audit_db_up s \<Longrightarrow>
   log_audit_event actor act ent ent_id (Some md) ip s =
     (Inr (Some \<lparr>log_id = fresh_id (map log_id (audit_logs s)), actor_user = actor,
                  action = act, entity = ent, entity_id = ent_id, metadata = md,
                  ip_address = ip, log_created_at = now s\<rparr>),
      log_msg DEBUG ''audit_log: created''
        (s\<lparr>audit_logs := audit_logs s @
            [\<lparr>log_id = fresh_id (map log_id (audit_logs s)), actor_user = actor,
              action = act, entity = ent, entity_id = ent_id, metadata = md,
              ip_address = ip, log_created_at = now s\<rparr>]\<rparr>))"
  by (simp add: log_audit_event_def log_audit_event_try_def AuditLog_objects_create_def Let_def)

lemma log_audit_event_users:
  "log_audit_event actor act ent ent_id md ip s = (r, s') \<Longrightarrow> users s' = users s"
  by (auto simp: log_audit_event_def log_audit_event_try_def AuditLog_objects_create_def
      Let_def log_msg_def split: if_splits)

lemma User_save_error: "User_save adding u s = (Inl e, s') \<Longrightarrow> e = IntegrityError \<and> s' = s"
  by (auto simp: User_save_def Let_def split: if_splits)

lemma setattr_user_error: "setattr_user u k v = Inl e \<Longrightarrow> e = AttributeError"
  by (auto simp: setattr_user_def split: if_splits)

lemma setattrs_error: "setattrs u d = Inl e \<Longrightarrow> e = AttributeError"
  by (induction u d rule: setattrs.induct)
     (auto split: if_splits sum.splits dest: setattr_user_error)

lemma save_assigned_error:
  "save_assigned cols d adding u s = (Inl e, s') \<Longrightarrow>
     (e = IntegrityError \<or> e = ValidationError (InvalidValue ''datetime'')) \<and> s' = s"
  by (auto simp: save_assigned_def split: if_splits dest: User_save_error)

lemma User_init_error: "User_init i kw = Inl e \<Longrightarrow> e = AttributeError \<or> e = TypeError"
  unfolding User_init_def by (auto split: if_splits dest: setattrs_error)

lemma create_user_error:
  "create_user email pw extra s = (Inl e, s') \<Longrightarrow>
     e \<in> {ValueError, AttributeError, TypeError, IntegrityError,
          ValidationError (InvalidValue ''datetime'')} \<and> s' = s"
  unfolding create_user_def
  by (auto split: if_splits sum.splits dest: save_assigned_error User_init_error)

lemma create_user_by_admin_try_error:
  "create_user_by_admin_try data actor ip s = (Inl e, s') \<Longrightarrow> e \<noteq> PermissionDenied"
  unfolding create_user_by_admin_try_def
  by (auto split: if_splits sum.splits prod.splits option.splits
      dest: create_user_error simp: log_audit_event_not_Inl)

lemma update_user_by_admin_try_error:
  "update_user_by_admin_try uid data actor ip s = (Inl e, s') \<Longrightarrow> e \<noteq> PermissionDenied"
  unfolding update_user_by_admin_try_def User_objects_get_def
  by (auto split: if_splits sum.splits prod.splits option.splits
      dest: save_assigned_error setattrs_error simp: log_audit_event_not_Inl)

lemma suspend_user_try_error:
  "suspend_user_try uid actor ip s = (Inl e, s') \<Longrightarrow> e \<noteq> PermissionDenied"
  unfolding suspend_user_try_def User_objects_get_def
  by (auto split: if_splits sum.splits prod.splits option.splits
      dest: User_save_error simp: log_audit_event_not_Inl)

lemma activate_user_try_error:
  "activate_user_try uid actor ip s = (Inl e, s') \<Longrightarrow> e \<noteq> PermissionDenied"
  unfolding activate_user_try_def User_objects_get_def
  by (auto split: if_splits sum.splits prod.splits option.splits
      dest: User_save_error simp: log_audit_event_not_Inl)

section \<open>The audit logger never raises\<close>

text \<open>
  Claim C7. For every input, \<open>log_audit_event\<close> returns a value and never an exception.
  When the action or the entity is empty it creates no row, logs one warning and returns
  \<open>None\<close>. Whatever exception the body of its \<open>try\<close> block raises, it returns \<open>None\<close>; in
  particular when the audit table refuses the insert, no row is created and \<open>None\<close> is
  returned.
\<close>

theorem log_audit_event_never_raises:
  "(\<exists>r. fst (log_audit_event actor act ent ent_id md ip s) = Inr r) \<and>
   (act = [] \<or> ent = [] \<longrightarrow>
      fst (log_audit_event actor act ent ent_id md ip s) = Inr None \<and>
      audit_logs (snd (log_audit_event actor act ent ent_id md ip s)) = audit_logs s \<and>
      logger (snd (log_audit_event actor act ent ent_id md ip s)) =
        logger s @ [(WARNING, ''audit_log: missing action or entity'')]) \<and>
   (\<forall>e s1. log_audit_event_try actor act ent ent_id md ip s = (Inl e, s1) \<longrightarrow>
      fst (log_audit_event actor act ent ent_id md ip s) = Inr None) \<and>
   (\<not> audit_db_up s \<longrightarrow>
      fst (log_audit_event actor act ent ent_id md ip s) = Inr None \<and>
      audit_logs (snd (log_audit_event actor act ent ent_id md ip s)) = audit_logs s)"
  by (auto simp: log_audit_event_def log_audit_event_try_def AuditLog_objects_create_def
      Let_def log_msg_def)

theorem log_audit_event_never_raises_witness:
  "fst (log_audit_event None [] ''User'' None None None world) = Inr None \<and>
   audit_logs (snd (log_audit_event None [] ''User'' None None None world)) = [] \<and>
   logger (snd (log_audit_event None [] ''User'' None None None world)) =
     [(WARNING, ''audit_log: missing action or entity'')] \<and>
   \<not> audit_db_up (world\<lparr>audit_db_up := False\<rparr>) \<and>
   fst (log_audit_event (Some ''u2'') USER_SUSPENDED ''User'' (Some ''u1'') None None
          (world\<lparr>audit_db_up := False\<rparr>)) = Inr None \<and>
   audit_logs (snd (log_audit_event (Some ''u2'') USER_SUSPENDED ''User'' (Some ''u1'') None None
          (world\<lparr>audit_db_up := False\<rparr>))) = []"
  using log_audit_event_never_raises [of None "[]" "''User''" None None None world]
    log_audit_event_never_raises [of "Some ''u2''" USER_SUSPENDED "''User''" "Some ''u1''" None
      None "world\<lparr>audit_db_up := False\<rparr>"]
  by (simp add: world_def)

section \<open>The role check of the administrator's operations\<close>

text \<open>
  Claim C3. When the actor's role is not \<open>ADMIN\<close>, each of \<open>create_user_by_admin\<close>,
  \<open>update_user_by_admin\<close>, \<open>suspend_user\<close> and \<open>activate_user\<close> raises \<open>PermissionDenied\<close> and
  leaves the whole state (the user table, the audit table, the log) as it was. When the
  actor's role is \<open>ADMIN\<close>, none of them raises \<open>PermissionDenied\<close>.
\<close>

theorem admin_path_role_check:
  "(role actor \<noteq> Role_ADMIN \<longrightarrow>
      create_user_by_admin data actor ip s = (Inl PermissionDenied, s) \<and>
      update_user_by_admin uid data actor ip s = (Inl PermissionDenied, s) \<and>
      suspend_user uid actor ip s = (Inl PermissionDenied, s) \<and>
      activate_user uid actor ip s = (Inl PermissionDenied, s)) \<and>
   (role actor = Role_ADMIN \<longrightarrow>
      fst (create_user_by_admin data actor ip s) \<noteq> Inl PermissionDenied \<and>
      fst (update_user_by_admin uid data actor ip s) \<noteq> Inl PermissionDenied \<and>
      fst (suspend_user uid actor ip s) \<noteq> Inl PermissionDenied \<and>
      fst (activate_user uid actor ip s) \<noteq> Inl PermissionDenied)"
proof (intro conjI impI)
  assume "role actor \<noteq> Role_ADMIN"
  then show "create_user_by_admin data actor ip s = (Inl PermissionDenied, s)"
    and "update_user_by_admin uid data actor ip s = (Inl PermissionDenied, s)"
    and "suspend_user uid actor ip s = (Inl PermissionDenied, s)"
    and "activate_user uid actor ip s = (Inl PermissionDenied, s)"
    by (simp_all add: create_user_by_admin_def update_user_by_admin_def suspend_user_def
        activate_user_def)
next
  assume a: "role actor = Role_ADMIN"
  show "fst (create_user_by_admin data actor ip s) \<noteq> Inl PermissionDenied"
    using a by (auto simp: create_user_by_admin_def split: prod.splits sum.splits
        dest: create_user_by_admin_try_error)
  show "fst (update_user_by_admin uid data actor ip s) \<noteq> Inl PermissionDenied"
    using a by (auto simp: update_user_by_admin_def split: prod.splits sum.splits
        dest: update_user_by_admin_try_error)
  show "fst (suspend_user uid actor ip s) \<noteq> Inl PermissionDenied"
    using a by (auto simp: suspend_user_def split: prod.splits sum.splits
        dest: suspend_user_try_error)
  show "fst (activate_user uid actor ip s) \<noteq> Inl PermissionDenied"
    using a by (auto simp: activate_user_def split: prod.splits sum.splits
        dest: activate_user_try_error)
qed

theorem admin_path_role_check_witness:
  "role ana \<noteq> Role_ADMIN \<and>
   create_user_by_admin [(''email_primary'', ''b@x.com''), (''password'', ''pw'')] ana None world =
     (Inl PermissionDenied, world) \<and>
   update_user_by_admin ''u2'' [(''role'', ''CLIENT'')] ana None world = (Inl PermissionDenied, world) \<and>
   suspend_user ''u2'' ana None world = (Inl PermissionDenied, world) \<and>
   activate_user ''u2'' ana None world = (Inl PermissionDenied, world) \<and>
   role root = Role_ADMIN \<and>
   fst (create_user_by_admin [(''email_primary'', ''b@x.com''), (''password'', ''pw'')] root None world)
     \<noteq> Inl PermissionDenied \<and>
   fst (update_user_by_admin ''u1'' [(''role'', ''SUPERVISOR'')] root None world)
     \<noteq> Inl PermissionDenied \<and>
   fst (suspend_user ''u1'' root None world) \<noteq> Inl PermissionDenied \<and>
   fst (activate_user ''u1'' root None world) \<noteq> Inl PermissionDenied"
  using admin_path_role_check [of ana "[(''email_primary'', ''b@x.com''), (''password'', ''pw'')]"
      None world "''u2''"]
    admin_path_role_check [of ana "[(''role'', ''CLIENT'')]" None world "''u2''"]
    admin_path_role_check [of root "[(''email_primary'', ''b@x.com''), (''password'', ''pw'')]"
      None world "''u1''"]
    admin_path_role_check [of root "[(''role'', ''SUPERVISOR'')]" None world "''u1''"]
  by (simp add: ana_def root_def Role_ADMIN_def)

section \<open>Self-update rejects prohibited fields as a whole\<close>

text \<open>
  Claim C1. When the update dictionary has at least one key of the prohibited set (\<open>role\<close>,
  \<open>status\<close>, \<open>email_primary\<close>, \<open>id_type\<close>, \<open>id_number\<close>, \<open>birth_date\<close>, \<open>created_at\<close>,
  \<open>updated_at\<close>, \<open>last_login_at\<close>), \<open>update_self_user\<close> raises a \<open>ValidationError\<close> whose
  message names exactly the prohibited keys present, and nothing is changed: the state is
  the one before the call, whatever allowed keys the dictionary also has. The serializer's
  \<open>validate\<close> raises the same error on the same dictionary.
\<close>

theorem update_self_user_prohibited:
  "fst ` set data \<inter> {''role'', ''status'', ''email_primary'', ''id_type'', ''id_number'',
       ''birth_date'', ''created_at'', ''updated_at'', ''last_login_at''} \<noteq> {} \<Longrightarrow>
   update_self_user u data ip s =
     (Inl (ValidationError (ProhibitedFields
        (fst ` set data \<inter> {''role'', ''status'', ''email_primary'', ''id_type'', ''id_number'',
           ''birth_date'', ''created_at'', ''updated_at'', ''last_login_at''}))), s) \<and>
   UserMeUpdateSerializer_validate data =
     Inl (ValidationError (ProhibitedFields
        (fst ` set data \<inter> {''role'', ''status'', ''email_primary'', ''id_type'', ''id_number'',
           ''birth_date'', ''created_at'', ''updated_at'', ''last_login_at''})))"
  by (simp add: update_self_user_def UserMeUpdateSerializer_validate_def Let_def
      SELF_PROHIBITED_FIELDS_def UserMeUpdateSerializer_PROHIBITED_FIELDS_def)

theorem update_self_user_prohibited_witness:
  "update_self_user ana [(''phone'', ''3009999999''), (''role'', ''ADMIN'')] None world =
     (Inl (ValidationError (ProhibitedFields {''role''})), world) \<and>
   UserMeUpdateSerializer_validate [(''phone'', ''3009999999''), (''role'', ''ADMIN'')] =
     Inl (ValidationError (ProhibitedFields {''role''}))"
proof -
  have e: "fst ` set [(''phone'', ''3009999999''), (''role'', ''ADMIN'')] \<inter>
      {''role'', ''status'', ''email_primary'', ''id_type'', ''id_number'',
       ''birth_date'', ''created_at'', ''updated_at'', ''last_login_at''} = {''role''}"
    by auto
  show ?thesis
    using update_self_user_prohibited [of "[(''phone'', ''3009999999''), (''role'', ''ADMIN'')]"
        ana None world]
    unfolding e by simp
qed

section \<open>Suspending and activating\<close>

lemma User_objects_get_Inr:
  "User_objects_get uid s = Inr u \<Longrightarrow> u \<in> set (users s) \<and> user_id u = uid"
  by (auto simp: User_objects_get_def find_Some_iff split: option.splits)

lemma find_map_update:
  "find (\<lambda>r. user_id r = uid) rows = Some u \<Longrightarrow> user_id u' = uid \<Longrightarrow>
   find (\<lambda>r. user_id r = uid) (map (\<lambda>r. if user_id r = uid then u' else r) rows) = Some u'"
  by (induction rows) (auto split: if_splits)

lemma distinct_map_eq:
  "distinct (map f xs) \<Longrightarrow> x \<in> set xs \<Longrightarrow> y \<in> set xs \<Longrightarrow> f x = f y \<Longrightarrow> x = y"
  by (meson distinct_map inj_onD)

lemma no_violation_same_keys:
  assumes "table_constraints rows" "r \<in> set rows"
    "user_id u = user_id r" "email_primary u = email_primary r"
    "id_type u = id_type r" "id_number u = id_number r"
  shows "\<not> unique_violation u rows"
proof
  assume "unique_violation u rows"
  then obtain r' where r': "r' \<in> set rows" "user_id r' \<noteq> user_id u"
    and c: "email_primary r' = email_primary u \<or>
            (id_type r' = id_type u \<and> id_number r' = id_number u)"
    by (auto simp: unique_violation_def)
  from c show False
  proof
    assume "email_primary r' = email_primary u"
    then have "r' = r" using assms r'
      by (auto simp: table_constraints_def intro: distinct_map_eq[where f = email_primary])
    with r' assms show False by simp
  next
    assume "id_type r' = id_type u \<and> id_number r' = id_number u"
    then have "(\<lambda>r. (id_type r, id_number r)) r' = (\<lambda>r. (id_type r, id_number r)) r"
      using assms by simp
    then have "r' = r" using assms r'
      unfolding table_constraints_def
      by (meson distinct_map_eq)
    with r' assms show False by simp
  qed
qed

lemma User_save_status:
  assumes "table_constraints (users s)" "User_objects_get uid s = Inr u"
  shows "User_save False (u\<lparr>status := st\<rparr>) s =
     (Inr (u\<lparr>status := st, updated_at := now s\<rparr>),
      s\<lparr>users := map (\<lambda>r. if user_id r = uid then u\<lparr>status := st, updated_at := now s\<rparr> else r)
                    (users s)\<rparr>)"
proof -
  from assms(2) have m: "u \<in> set (users s)" "user_id u = uid"
    by (auto dest: User_objects_get_Inr)
  have nv: "\<not> unique_violation (u\<lparr>status := st\<rparr>) (users s)"
    using no_violation_same_keys[OF assms(1) m(1), of "u\<lparr>status := st\<rparr>"] by simp
  have bd: "birth_date u \<noteq> None" using assms(1) m(1) by (auto simp: table_constraints_def)
  show ?thesis using nv bd m by (auto simp: User_save_def Let_def)
qed

lemma status_saved_lookup:
  assumes "User_objects_get uid s = Inr u"
  shows "User_objects_get uid
           (s\<lparr>users := map (\<lambda>r. if user_id r = uid then u\<lparr>status := st, updated_at := t\<rparr> else r)
                         (users s)\<rparr>) = Inr (u\<lparr>status := st, updated_at := t\<rparr>)"
proof -
  have id: "user_id u = uid" using assms by (auto dest: User_objects_get_Inr)
  have f: "find (\<lambda>r. user_id r = uid) (users s) = Some u"
    using assms by (auto simp: User_objects_get_def split: option.splits)
  show ?thesis
    using find_map_update[OF f, of "u\<lparr>status := st, updated_at := t\<rparr>"] id
    by (simp add: User_objects_get_def)
qed

lemma suspend_user_transition:
  assumes "role actor = Role_ADMIN" "User_objects_get uid s = Inr u"
    "table_constraints (users s)" "audit_db_up s" "status u \<noteq> Status_SUSPENDED"
  shows "\<exists>s' ev. suspend_user uid actor ip s =
             (Inr (u\<lparr>status := Status_SUSPENDED, updated_at := now s\<rparr>), s') \<and>
           User_objects_get uid s' = Inr (u\<lparr>status := Status_SUSPENDED, updated_at := now s\<rparr>) \<and>
           audit_logs s' = audit_logs s @ [ev] \<and> action ev = USER_SUSPENDED \<and>
           actor_user ev = Some (user_id actor) \<and> entity_id ev = Some uid"
proof -
  let ?u' = "u\<lparr>status := Status_SUSPENDED, updated_at := now s\<rparr>"
  let ?s1 = "s\<lparr>users := map (\<lambda>r. if user_id r = uid then ?u' else r) (users s)\<rparr>"
  have sv: "User_save False (u\<lparr>status := Status_SUSPENDED\<rparr>) s = (Inr ?u', ?s1)"
    using User_save_status[OF assms(3,2)] .
  have id: "user_id u = uid" using assms(2) by (auto dest: User_objects_get_Inr)
  have up: "audit_db_up ?s1" using assms(4) by simp
  have g: "User_objects_get uid ?s1 = Inr ?u'"
    using status_saved_lookup[OF assms(2)] .
  show ?thesis
    using assms(1,2,5) sv id g
    by (simp add: suspend_user_def suspend_user_try_def log_audit_event_up[OF _ _ up]
        USER_SUSPENDED_def User_objects_get_def log_msg_def)
qed

lemma activate_user_transition:
  assumes "role actor = Role_ADMIN" "User_objects_get uid s = Inr u"
    "table_constraints (users s)" "audit_db_up s" "status u \<noteq> Status_ACTIVE"
  shows "\<exists>s' ev. activate_user uid actor ip s =
             (Inr (u\<lparr>status := Status_ACTIVE, updated_at := now s\<rparr>), s') \<and>
           User_objects_get uid s' = Inr (u\<lparr>status := Status_ACTIVE, updated_at := now s\<rparr>) \<and>
           audit_logs s' = audit_logs s @ [ev] \<and> action ev = USER_ACTIVATED \<and>
           actor_user ev = Some (user_id actor) \<and> entity_id ev = Some uid"
proof -
  let ?u' = "u\<lparr>status := Status_ACTIVE, updated_at := now s\<rparr>"
  let ?s1 = "s\<lparr>users := map (\<lambda>r. if user_id r = uid then ?u' else r) (users s)\<rparr>"
  have sv: "User_save False (u\<lparr>status := Status_ACTIVE\<rparr>) s = (Inr ?u', ?s1)"
    using User_save_status[OF assms(3,2)] .
  have id: "user_id u = uid" using assms(2) by (auto dest: User_objects_get_Inr)
  have up: "audit_db_up ?s1" using assms(4) by simp
  have g: "User_objects_get uid ?s1 = Inr ?u'"
    using status_saved_lookup[OF assms(2)] .
  show ?thesis
    using assms(1,2,5) sv id g
    by (simp add: activate_user_def activate_user_try_def log_audit_event_up[OF _ _ up]
        USER_ACTIVATED_def User_objects_get_def log_msg_def)
qed

lemma suspend_user_noop:
  "role actor = Role_ADMIN \<Longrightarrow> User_objects_get uid s = Inr u \<Longrightarrow> status u = Status_SUSPENDED \<Longrightarrow>
   suspend_user uid actor ip s = (Inr u, log_msg WARNING ''suspend_user: already suspended'' s)"
  by (simp add: suspend_user_def suspend_user_try_def)

lemma activate_user_noop:
  "role actor = Role_ADMIN \<Longrightarrow> User_objects_get uid s = Inr u \<Longrightarrow> status u = Status_ACTIVE \<Longrightarrow>
   activate_user uid actor ip s = (Inr u, log_msg WARNING ''activate_user: already active'' s)"
  by (simp add: activate_user_def activate_user_try_def)

lemma log_audit_event_down:
  "act \<noteq> [] \<Longrightarrow> ent \<noteq> [] \<Longrightarrow> \<not> audit_db_up s \<Longrightarrow>
   log_audit_event actor act ent ent_id md ip s =
     (Inr None, log_msg ERROR ''audit_log: create failed'' s)"
  by (simp add: log_audit_event_def log_audit_event_try_def AuditLog_objects_create_def)

lemma suspend_user_transition_down:
  assumes "role actor = Role_ADMIN" "User_objects_get uid s = Inr u"
    "table_constraints (users s)" "\<not> audit_db_up s" "status u \<noteq> Status_SUSPENDED"
  shows "\<exists>s'. suspend_user uid actor ip s =
             (Inr (u\<lparr>status := Status_SUSPENDED, updated_at := now s\<rparr>), s') \<and>
           User_objects_get uid s' = Inr (u\<lparr>status := Status_SUSPENDED, updated_at := now s\<rparr>) \<and>
           audit_logs s' = audit_logs s"
proof -
  let ?u' = "u\<lparr>status := Status_SUSPENDED, updated_at := now s\<rparr>"
  let ?s1 = "s\<lparr>users := map (\<lambda>r. if user_id r = uid then ?u' else r) (users s)\<rparr>"
  have sv: "User_save False (u\<lparr>status := Status_SUSPENDED\<rparr>) s = (Inr ?u', ?s1)"
    using User_save_status[OF assms(3,2)] .
  have id: "user_id u = uid" using assms(2) by (auto dest: User_objects_get_Inr)
  have dn: "\<not> audit_db_up ?s1" using assms(4) by simp
  have g: "User_objects_get uid ?s1 = Inr ?u'"
    using status_saved_lookup[OF assms(2)] .
  show ?thesis
    using assms(1,2,5) sv id g
    by (simp add: suspend_user_def suspend_user_try_def log_audit_event_down[OF _ _ dn]
        USER_SUSPENDED_def User_objects_get_def log_msg_def)
qed

lemma activate_user_transition_down:
  assumes "role actor = Role_ADMIN" "User_objects_get uid s = Inr u"
    "table_constraints (users s)" "\<not> audit_db_up s" "status u \<noteq> Status_ACTIVE"
  shows "\<exists>s'. activate_user uid actor ip s =
             (Inr (u\<lparr>status := Status_ACTIVE, updated_at := now s\<rparr>), s') \<and>
           User_objects_get uid s' = Inr (u\<lparr>status := Status_ACTIVE, updated_at := now s\<rparr>) \<and>
           audit_logs s' = audit_logs s"
proof -
  let ?u' = "u\<lparr>status := Status_ACTIVE, updated_at := now s\<rparr>"
  let ?s1 = "s\<lparr>users := map (\<lambda>r. if user_id r = uid then ?u' else r) (users s)\<rparr>"
  have sv: "User_save False (u\<lparr>status := Status_ACTIVE\<rparr>) s = (Inr ?u', ?s1)"
    using User_save_status[OF assms(3,2)] .
  have id: "user_id u = uid" using assms(2) by (auto dest: User_objects_get_Inr)
  have dn: "\<not> audit_db_up ?s1" using assms(4) by simp
  have g: "User_objects_get uid ?s1 = Inr ?u'"
    using status_saved_lookup[OF assms(2)] .
  show ?thesis
    using assms(1,2,5) sv id g
    by (simp add: activate_user_def activate_user_try_def log_audit_event_down[OF _ _ dn]
        USER_ACTIVATED_def User_objects_get_def log_msg_def)
qed

text \<open>
  Claim C2, as stated, fails when the audit table refuses the row (the database is down,
  or it rejects a value such as a malformed client address): \<open>log_audit_event\<close> swallows
  the failure and \<open>suspend_user\<close> ignores what it returns. An administrator suspending the
  \<open>ACTIVE\<close> user Ana then succeeds, Ana is stored as \<open>SUSPENDED\<close>, and no audit row exists.
\<close>

theorem suspend_activate_counterexample:
  "role root = Role_ADMIN \<and>
   User_objects_get ''u1'' (world\<lparr>audit_db_up := False\<rparr>) = Inr ana \<and>
   status ana = Status_ACTIVE \<and>
   fst (suspend_user ''u1'' root None (world\<lparr>audit_db_up := False\<rparr>)) =
     Inr (ana\<lparr>status := Status_SUSPENDED, updated_at := 10\<rparr>) \<and>
   User_objects_get ''u1'' (snd (suspend_user ''u1'' root None (world\<lparr>audit_db_up := False\<rparr>))) =
     Inr (ana\<lparr>status := Status_SUSPENDED, updated_at := 10\<rparr>) \<and>
   audit_logs (snd (suspend_user ''u1'' root None (world\<lparr>audit_db_up := False\<rparr>))) = []"
  by code_simp

text \<open>
  Claim C2, amended. Let the actor be an administrator and \<open>u\<close> the stored user of the
  given id, in a user table that satisfies its constraints. If \<open>u\<close> is \<open>ACTIVE\<close>,
  \<open>suspend_user\<close> stores and returns \<open>u\<close> as \<open>SUSPENDED\<close>; it appends exactly one audit row,
  of action \<open>USER_SUSPENDED\<close>, by the actor, on that user, when the audit table accepts the
  row, and none when the audit table refuses it (the suspension succeeds all the same); a
  second call right after returns the same record and changes neither table. If \<open>u\<close> is
  already \<open>SUSPENDED\<close>, \<open>suspend_user\<close> succeeds, returns \<open>u\<close> itself and changes neither
  table. Symmetrically for \<open>activate_user\<close>, \<open>USER_ACTIVATED\<close> and a \<open>SUSPENDED\<close> user taken
  to \<open>ACTIVE\<close>; on an \<open>ACTIVE\<close> user it returns the user and changes nothing.
\<close>

theorem suspend_activate_amended:
  assumes "role actor = Role_ADMIN" and "User_objects_get uid s = Inr u"
    and "table_constraints (users s)"
  shows
   "(status u = Status_ACTIVE \<longrightarrow>
       (\<exists>s' s''.
          suspend_user uid actor ip s =
            (Inr (u\<lparr>status := Status_SUSPENDED, updated_at := now s\<rparr>), s') \<and>
          User_objects_get uid s' = Inr (u\<lparr>status := Status_SUSPENDED, updated_at := now s\<rparr>) \<and>
          (audit_db_up s \<longrightarrow>
             (\<exists>ev. audit_logs s' = audit_logs s @ [ev] \<and> action ev = USER_SUSPENDED \<and>
                   actor_user ev = Some (user_id actor) \<and> entity_id ev = Some uid)) \<and>
          (\<not> audit_db_up s \<longrightarrow> audit_logs s' = audit_logs s) \<and>
          suspend_user uid actor ip s' =
            (Inr (u\<lparr>status := Status_SUSPENDED, updated_at := now s\<rparr>), s'') \<and>
          users s'' = users s' \<and> audit_logs s'' = audit_logs s')) \<and>
    (status u = Status_SUSPENDED \<longrightarrow>
       (\<exists>s'. suspend_user uid actor ip s = (Inr u, s') \<and>
             users s' = users s \<and> audit_logs s' = audit_logs s)) \<and>
    (status u = Status_SUSPENDED \<longrightarrow>
       (\<exists>s' s''.
          activate_user uid actor ip s =
            (Inr (u\<lparr>status := Status_ACTIVE, updated_at := now s\<rparr>), s') \<and>
          User_objects_get uid s' = Inr (u\<lparr>status := Status_ACTIVE, updated_at := now s\<rparr>) \<and>
          (audit_db_up s \<longrightarrow>
             (\<exists>ev. audit_logs s' = audit_logs s @ [ev] \<and> action ev = USER_ACTIVATED \<and>
                   actor_user ev = Some (user_id actor) \<and> entity_id ev = Some uid)) \<and>
          (\<not> audit_db_up s \<longrightarrow> audit_logs s' = audit_logs s) \<and>
          activate_user uid actor ip s' =
            (Inr (u\<lparr>status := Status_ACTIVE, updated_at := now s\<rparr>), s'') \<and>
          users s'' = users s' \<and> audit_logs s'' = audit_logs s')) \<and>
    (status u = Status_ACTIVE \<longrightarrow>
       (\<exists>s'. activate_user uid actor ip s = (Inr u, s') \<and>
             users s' = users s \<and> audit_logs s' = audit_logs s))"
proof (intro conjI impI)
  assume a: "status u = Status_ACTIVE"
  then have ns: "status u \<noteq> Status_SUSPENDED"
    by (simp add: Status_ACTIVE_def Status_SUSPENDED_def)
  let ?u' = "u\<lparr>status := Status_SUSPENDED, updated_at := now s\<rparr>"
  have "\<exists>s'. suspend_user uid actor ip s = (Inr ?u', s') \<and>
          User_objects_get uid s' = Inr ?u' \<and>
          (audit_db_up s \<longrightarrow>
             (\<exists>ev. audit_logs s' = audit_logs s @ [ev] \<and> action ev = USER_SUSPENDED \<and>
                   actor_user ev = Some (user_id actor) \<and> entity_id ev = Some uid)) \<and>
          (\<not> audit_db_up s \<longrightarrow> audit_logs s' = audit_logs s)"
  proof (cases "audit_db_up s")
    case True
    from suspend_user_transition[OF assms True ns, of ip] True show ?thesis by blast
  next
    case False
    from suspend_user_transition_down[OF assms False ns, of ip] False show ?thesis by blast
  qed
  then obtain s' where t: "suspend_user uid actor ip s = (Inr ?u', s')"
    "User_objects_get uid s' = Inr ?u'"
    "audit_db_up s \<longrightarrow>
       (\<exists>ev. audit_logs s' = audit_logs s @ [ev] \<and> action ev = USER_SUSPENDED \<and>
             actor_user ev = Some (user_id actor) \<and> entity_id ev = Some uid)"
    "\<not> audit_db_up s \<longrightarrow> audit_logs s' = audit_logs s"
    by blast
  have n: "suspend_user uid actor ip s' =
      (Inr ?u', log_msg WARNING ''suspend_user: already suspended'' s')"
    using suspend_user_noop[OF assms(1) t(2)] by simp
  have "suspend_user uid actor ip s' =
          (Inr ?u', log_msg WARNING ''suspend_user: already suspended'' s') \<and>
        users (log_msg WARNING ''suspend_user: already suspended'' s') = users s' \<and>
        audit_logs (log_msg WARNING ''suspend_user: already suspended'' s') = audit_logs s'"
    using n by (simp add: log_msg_def)
  with t show "\<exists>s' s''.
          suspend_user uid actor ip s = (Inr ?u', s') \<and>
          User_objects_get uid s' = Inr ?u' \<and>
          (audit_db_up s \<longrightarrow>
             (\<exists>ev. audit_logs s' = audit_logs s @ [ev] \<and> action ev = USER_SUSPENDED \<and>
                   actor_user ev = Some (user_id actor) \<and> entity_id ev = Some uid)) \<and>
          (\<not> audit_db_up s \<longrightarrow> audit_logs s' = audit_logs s) \<and>
          suspend_user uid actor ip s' = (Inr ?u', s'') \<and>
          users s'' = users s' \<and> audit_logs s'' = audit_logs s'"
    by blast
  show "\<exists>s'. activate_user uid actor ip s = (Inr u, s') \<and>
             users s' = users s \<and> audit_logs s' = audit_logs s"
    using activate_user_noop[OF assms(1,2) a] by (simp add: log_msg_def)
next
  assume a: "status u = Status_SUSPENDED"
  then have ns: "status u \<noteq> Status_ACTIVE"
    by (simp add: Status_ACTIVE_def Status_SUSPENDED_def)
  let ?u' = "u\<lparr>status := Status_ACTIVE, updated_at := now s\<rparr>"
  have "\<exists>s'. activate_user uid actor ip s = (Inr ?u', s') \<and>
          User_objects_get uid s' = Inr ?u' \<and>
          (audit_db_up s \<longrightarrow>
             (\<exists>ev. audit_logs s' = audit_logs s @ [ev] \<and> action ev = USER_ACTIVATED \<and>
                   actor_user ev = Some (user_id actor) \<and> entity_id ev = Some uid)) \<and>
          (\<not> audit_db_up s \<longrightarrow> audit_logs s' = audit_logs s)"
  proof (cases "audit_db_up s")
    case True
    from activate_user_transition[OF assms True ns, of ip] True show ?thesis by blast
  next
    case False
    from activate_user_transition_down[OF assms False ns, of ip] False show ?thesis by blast
  qed
  then obtain s' where t: "activate_user uid actor ip s = (Inr ?u', s')"
    "User_objects_get uid s' = Inr ?u'"
    "audit_db_up s \<longrightarrow>
       (\<exists>ev. audit_logs s' = audit_logs s @ [ev] \<and> action ev = USER_ACTIVATED \<and>
             actor_user ev = Some (user_id actor) \<and> entity_id ev = Some uid)"
    "\<not> audit_db_up s \<longrightarrow> audit_logs s' = audit_logs s"
    by blast
  have n: "activate_user uid actor ip s' =
      (Inr ?u', log_msg WARNING ''activate_user: already active'' s')"
    using activate_user_noop[OF assms(1) t(2)] by simp
  have "activate_user uid actor ip s' =
          (Inr ?u', log_msg WARNING ''activate_user: already active'' s') \<and>
        users (log_msg WARNING ''activate_user: already active'' s') = users s' \<and>
        audit_logs (log_msg WARNING ''activate_user: already active'' s') = audit_logs s'"
    using n by (simp add: log_msg_def)
  with t show "\<exists>s' s''.
          activate_user uid actor ip s = (Inr ?u', s') \<and>
          User_objects_get uid s' = Inr ?u' \<and>
          (audit_db_up s \<longrightarrow>
             (\<exists>ev. audit_logs s' = audit_logs s @ [ev] \<and> action ev = USER_ACTIVATED \<and>
                   actor_user ev = Some (user_id actor) \<and> entity_id ev = Some uid)) \<and>
          (\<not> audit_db_up s \<longrightarrow> audit_logs s' = audit_logs s) \<and>
          activate_user uid actor ip s' = (Inr ?u', s'') \<and>
          users s'' = users s' \<and> audit_logs s'' = audit_logs s'"
    by blast
  show "\<exists>s'. suspend_user uid actor ip s = (Inr u, s') \<and>
             users s' = users s \<and> audit_logs s' = audit_logs s"
    using suspend_user_noop[OF assms(1,2) a] by (simp add: log_msg_def)
qed

lemma world_constraints: "table_constraints (users world)"
  by (simp add: table_constraints_def world_def ana_def root_def)

theorem suspend_activate_amended_witness:
  "role root = Role_ADMIN \<and> User_objects_get ''u1'' world = Inr ana \<and>
   table_constraints (users world) \<and> audit_db_up world \<and> status ana = Status_ACTIVE \<and>
   (\<exists>s' s'' ev.
      suspend_user ''u1'' root None world =
        (Inr (ana\<lparr>status := Status_SUSPENDED, updated_at := now world\<rparr>), s') \<and>
      User_objects_get ''u1'' s' = Inr (ana\<lparr>status := Status_SUSPENDED, updated_at := now world\<rparr>) \<and>
      audit_logs s' = audit_logs world @ [ev] \<and> action ev = USER_SUSPENDED \<and>
      actor_user ev = Some (user_id root) \<and> entity_id ev = Some ''u1'' \<and>
      suspend_user ''u1'' root None s' =
        (Inr (ana\<lparr>status := Status_SUSPENDED, updated_at := now world\<rparr>), s'') \<and>
      users s'' = users s' \<and> audit_logs s'' = audit_logs s') \<and>
   (\<exists>s'. activate_user ''u1'' root None world = (Inr ana, s') \<and>
         users s' = users world \<and> audit_logs s' = audit_logs world)"
proof -
  have h1: "role root = Role_ADMIN" by (simp add: root_def Role_ADMIN_def)
  have h2: "User_objects_get ''u1'' world = Inr ana"
    by (simp add: User_objects_get_def world_def ana_def root_def)
  have h4: "audit_db_up world" by (simp add: world_def)
  have h5: "status ana = Status_ACTIVE" by (simp add: ana_def Status_ACTIVE_def)
  show ?thesis
    using suspend_activate_amended [OF h1 h2 world_constraints, of None] h1 h2 h4 h5
      world_constraints
    by (simp del: ex_simps) blast
qed

section \<open>Listing users\<close>

lemma take_is_prefix: "(take (length t) xs = t) = (\<exists>post. xs = t @ post)"
  by (metis append_eq_conv_conj append_take_drop_id)

lemma contains_is_substring: "contains x t = is_substring t x"
proof (induction x)
  case Nil
  then show ?case by (auto simp: is_substring_def)
next
  case (Cons c cs)
  have "is_substring t (c # cs) = ((\<exists>post. c # cs = t @ post) \<or> is_substring t cs)"
    unfolding is_substring_def
    by (auto simp: Cons_eq_append_conv)
  then show ?case using Cons by (simp add: take_is_prefix del: take_Suc_Cons)
qed

lemma order_by_created_at_desc_sorted:
  "sorted_wrt (\<lambda>a b. created_at b \<le> created_at a) (order_by_created_at_desc q)"
  unfolding order_by_created_at_desc_def sorted_wrt_rev
  using sorted_sort_key[of created_at q] by (simp add: sorted_map)

lemma order_by_created_at_desc_mset: "mset (order_by_created_at_desc q) = mset q"
  by (simp add: order_by_created_at_desc_def)

lemma state_logger_nil [simp]: "s\<lparr>logger := logger s @ []\<rparr> = s"
  by simp

lemma filter_by_role_spec:
  "filter_by_role f (q, s) =
     (filter (\<lambda>u. \<forall>r. spec_role_filter f = Some r \<longrightarrow> role u = r) q,
      s\<lparr>logger := logger s @
          (case dict_get f ''role'' of None \<Rightarrow> []
           | Some r \<Rightarrow> if r \<noteq> [] \<and> r \<notin> {''ADMIN'', ''CLIENT'', ''INTERVENTORIA'', ''SUPERVISOR''}
                       then [(WARNING, ''list_users: invalid role'')] else [])\<rparr>)"
  by (auto simp: filter_by_role_def spec_role_filter_def Role_choices_def Role_ADMIN_def
      Role_CLIENT_def Role_INTERVENTORIA_def Role_SUPERVISOR_def log_msg_def
      split: option.splits)

lemma filter_by_status_spec:
  "filter_by_status f (q, s) =
     (filter (\<lambda>u. \<forall>st. spec_status_filter f = Some st \<longrightarrow> status u = st) q,
      s\<lparr>logger := logger s @
          (case dict_get f ''status'' of None \<Rightarrow> []
           | Some st \<Rightarrow> if st \<noteq> [] \<and> st \<notin> {''ACTIVE'', ''SUSPENDED''}
                       then [(WARNING, ''list_users: invalid status'')] else [])\<rparr>)"
  by (auto simp: filter_by_status_def spec_status_filter_def Status_choices_def
      Status_ACTIVE_def Status_SUSPENDED_def log_msg_def split: option.splits)

lemma filter_by_search_spec:
  "filter_by_search f (q, s) =
     (filter (\<lambda>u. spec_search_term f \<noteq> [] \<longrightarrow>
         is_substring (lower (spec_search_term f)) (lower (full_name u)) \<or>
         is_substring (lower (spec_search_term f)) (lower (email_primary u)) \<or>
         is_substring (lower (spec_search_term f)) (lower (id_number u)) \<or>
         is_substring (lower (spec_search_term f)) (lower (phone u))) q, s)"
  by (auto simp: filter_by_search_def spec_search_term_def search_match_def icontains_def
      contains_is_substring Let_def intro: filter_cong)

lemma spec_listed_Nil: "spec_listed [] u"
  by (simp add: spec_listed_def spec_role_filter_def spec_status_filter_def
      spec_search_term_def dict_get_def strip_def)

lemma spec_filter_warnings_Nil: "spec_filter_warnings [] = []"
  by (simp add: spec_filter_warnings_def dict_get_def)

lemma filters_compose:
  "filter_by_search f (filter_by_status f (filter_by_role f (q, s))) =
     (filter (spec_listed f) q, s\<lparr>logger := logger s @ spec_filter_warnings f\<rparr>)"
  unfolding filter_by_role_spec filter_by_status_spec filter_by_search_spec
  by (auto simp: spec_listed_def spec_filter_warnings_def intro: filter_cong)

lemma list_users_allowed:
  assumes "role actor \<in> ALLOWED_LIST_ROLES"
  shows "list_users filters (Some actor) s =
     (Inr (order_by_created_at_desc
             (filter (spec_listed (case filters of None \<Rightarrow> [] | Some f \<Rightarrow> f)) (users s))),
      log_msg DEBUG ''list_users: listed''
        (s\<lparr>logger := logger s @
             spec_filter_warnings (case filters of None \<Rightarrow> [] | Some f \<Rightarrow> f)\<rparr>))"
proof (cases filters)
  case None
  then show ?thesis using assms
    by (simp add: list_users_def spec_listed_Nil spec_filter_warnings_Nil)
next
  case (Some f)
  show ?thesis
  proof (cases "f = []")
    case True
    then show ?thesis using assms Some
      by (simp add: list_users_def spec_listed_Nil spec_filter_warnings_Nil)
  next
    case False
    then show ?thesis using assms Some
      by (simp add: list_users_def filters_compose)
  qed
qed

text \<open>
  Claim C4. For every actor, \<open>list_users\<close> raises \<open>PermissionDenied\<close> exactly when the
  actor's role is none of \<open>ADMIN\<close>, \<open>SUPERVISOR\<close>, \<open>INTERVENTORIA\<close>; a \<open>CLIENT\<close> is always
  denied. For an allowed actor and a filter map whose \<open>role\<close> is one of the four roles,
  every listed user has that role and the result is ordered by \<open>created_at\<close>, latest
  first; when the role is the only filter, the result holds exactly the stored users of
  that role.
\<close>

theorem list_users_permission_and_role:
  "(fst (list_users filters (Some actor) s) = Inl PermissionDenied \<longleftrightarrow>
      role actor \<notin> {Role_ADMIN, Role_SUPERVISOR, Role_INTERVENTORIA}) \<and>
   (role actor = Role_CLIENT \<longrightarrow>
      fst (list_users filters (Some actor) s) = Inl PermissionDenied) \<and>
   (role actor \<in> {Role_ADMIN, Role_SUPERVISOR, Role_INTERVENTORIA} \<and>
    dict_get f ''role'' = Some r \<and> r \<in> set Role_choices \<longrightarrow>
      (\<exists>res s'. list_users (Some f) (Some actor) s = (Inr res, s') \<and>
         (\<forall>u \<in> set res. role u = r \<and> u \<in> set (users s)) \<and>
         sorted_wrt (\<lambda>a b. created_at b \<le> created_at a) res)) \<and>
   (role actor \<in> {Role_ADMIN, Role_SUPERVISOR, Role_INTERVENTORIA} \<and> r \<in> set Role_choices \<longrightarrow>
      (\<exists>res s'. list_users (Some [(''role'', r)]) (Some actor) s = (Inr res, s') \<and>
         mset res = mset (filter (\<lambda>u. role u = r) (users s)) \<and>
         sorted_wrt (\<lambda>a b. created_at b \<le> created_at a) res))"
proof (intro conjI impI)
  show "fst (list_users filters (Some actor) s) = Inl PermissionDenied \<longleftrightarrow>
      role actor \<notin> {Role_ADMIN, Role_SUPERVISOR, Role_INTERVENTORIA}"
    by (simp add: list_users_def ALLOWED_LIST_ROLES_def Let_def)
next
  assume "role actor = Role_CLIENT"
  then show "fst (list_users filters (Some actor) s) = Inl PermissionDenied"
    by (simp add: list_users_def ALLOWED_LIST_ROLES_def Role_CLIENT_def Role_ADMIN_def
        Role_SUPERVISOR_def Role_INTERVENTORIA_def)
next
  assume a: "role actor \<in> {Role_ADMIN, Role_SUPERVISOR, Role_INTERVENTORIA} \<and>
    dict_get f ''role'' = Some r \<and> r \<in> set Role_choices"
  then have al: "role actor \<in> ALLOWED_LIST_ROLES" by (simp add: ALLOWED_LIST_ROLES_def)
  have rf: "spec_role_filter f = Some r"
    using a by (auto simp: spec_role_filter_def Role_choices_def Role_ADMIN_def Role_CLIENT_def
        Role_INTERVENTORIA_def Role_SUPERVISOR_def)
  have "\<forall>u \<in> set (order_by_created_at_desc (filter (spec_listed f) (users s))).
          role u = r \<and> u \<in> set (users s)"
    using rf by (auto simp: order_by_created_at_desc_def spec_listed_def)
  then show "\<exists>res s'. list_users (Some f) (Some actor) s = (Inr res, s') \<and>
         (\<forall>u \<in> set res. role u = r \<and> u \<in> set (users s)) \<and>
         sorted_wrt (\<lambda>a b. created_at b \<le> created_at a) res"
    using list_users_allowed[OF al, of "Some f" s] order_by_created_at_desc_sorted
    by simp
next
  assume a: "role actor \<in> {Role_ADMIN, Role_SUPERVISOR, Role_INTERVENTORIA} \<and>
    r \<in> set Role_choices"
  then have al: "role actor \<in> ALLOWED_LIST_ROLES" by (simp add: ALLOWED_LIST_ROLES_def)
  have rf: "spec_role_filter [(''role'', r)] = Some r"
    using a by (auto simp: spec_role_filter_def dict_get_def Role_choices_def Role_ADMIN_def
        Role_CLIENT_def Role_INTERVENTORIA_def Role_SUPERVISOR_def)
  have "spec_listed [(''role'', r)] = (\<lambda>u. role u = r)"
    using rf by (auto simp: spec_listed_def spec_status_filter_def spec_search_term_def
        dict_get_def strip_def)
  then show "\<exists>res s'. list_users (Some [(''role'', r)]) (Some actor) s = (Inr res, s') \<and>
         mset res = mset (filter (\<lambda>u. role u = r) (users s)) \<and>
         sorted_wrt (\<lambda>a b. created_at b \<le> created_at a) res"
    using list_users_allowed[OF al, of "Some [(''role'', r)]" s]
      order_by_created_at_desc_sorted order_by_created_at_desc_mset
    by simp
qed

theorem list_users_permission_and_role_witness:
  "role ana = Role_CLIENT \<and>
   fst (list_users (Some [(''role'', ''ADMIN'')]) (Some ana) world) = Inl PermissionDenied \<and>
   role (root\<lparr>role := Role_SUPERVISOR\<rparr>) \<in> {Role_ADMIN, Role_SUPERVISOR, Role_INTERVENTORIA} \<and>
   ''ADMIN'' \<in> set Role_choices \<and>
   fst (list_users (Some [(''role'', ''ADMIN'')]) (Some (root\<lparr>role := Role_SUPERVISOR\<rparr>)) world)
     = Inr [root] \<and>
   mset [root] = mset (filter (\<lambda>u. role u = ''ADMIN'') (users world))"
proof -
  have h1: "role ana = Role_CLIENT" by (simp add: ana_def Role_CLIENT_def)
  have h2: "role (root\<lparr>role := Role_SUPERVISOR\<rparr>) \<in> {Role_ADMIN, Role_SUPERVISOR, Role_INTERVENTORIA}"
    by simp
  have h3: "''ADMIN'' \<in> set Role_choices" by (simp add: Role_choices_def Role_ADMIN_def)
  have c: "fst (list_users (Some [(''role'', ''ADMIN'')]) (Some (root\<lparr>role := Role_SUPERVISOR\<rparr>)) world)
     = Inr [root]"
    by code_simp
  show ?thesis
    using list_users_permission_and_role
        [of "Some [(''role'', ''ADMIN'')]" ana world "[(''role'', ''ADMIN'')]" "''ADMIN''"]
      list_users_permission_and_role
        [of "Some [(''role'', ''ADMIN'')]" "root\<lparr>role := Role_SUPERVISOR\<rparr>" world
            "[(''role'', ''ADMIN'')]" "''ADMIN''"]
      h1 h2 h3 c
    by auto
qed

text \<open>
  Claim C5, as stated, fails on two inputs. An empty \<open>role\<close> value is no role, yet it is
  skipped without any warning: the only log record of the call is the final debug record.
  And the search term is trimmed before it is matched: the value \<open>" ANA "\<close> lists Ana Ruiz,
  in none of whose four columns that value occurs, letter case ignored.
\<close>

theorem list_users_filters_counterexample:
  "[] \<notin> set Role_choices \<and>
   list_users (Some [(''role'', [])]) (Some root) world =
     (Inr [root, ana], world\<lparr>logger := [(DEBUG, ''list_users: listed'')]\<rparr>) \<and>
   fst (list_users (Some [(''search'', '' ANA '')]) (Some root) world) = Inr [ana] \<and>
   \<not> icontains (full_name ana) '' ANA '' \<and> \<not> icontains (email_primary ana) '' ANA '' \<and>
   \<not> icontains (id_number ana) '' ANA '' \<and> \<not> icontains (phone ana) '' ANA ''"
  by code_simp

text \<open>
  Claim C5, amended. For every allowed actor and every filter map the call succeeds and
  changes neither table. A \<open>role\<close> or \<open>status\<close> value that is not a valid enum value is not
  applied; when such a value is non-empty a warning is logged, an empty one is skipped
  silently. The \<open>search\<close> value is trimmed of surrounding white space; when what remains is
  non-empty, the users kept are those in whose \<open>full_name\<close> or \<open>email_primary\<close> or
  \<open>id_number\<close> or \<open>phone\<close> it occurs as a substring, letter case ignored. The result holds
  exactly the stored users that pass the filters, ordered by \<open>created_at\<close>, latest first.
\<close>

theorem list_users_filters_amended:
  "role actor \<in> {Role_ADMIN, Role_SUPERVISOR, Role_INTERVENTORIA} \<Longrightarrow>
   \<exists>res s'. list_users (Some f) (Some actor) s = (Inr res, s') \<and>
     mset res = mset (filter (spec_listed f) (users s)) \<and>
     sorted_wrt (\<lambda>a b. created_at b \<le> created_at a) res \<and>
     logger s' = logger s @ spec_filter_warnings f @ [(DEBUG, ''list_users: listed'')] \<and>
     users s' = users s \<and> audit_logs s' = audit_logs s"
proof -
  assume "role actor \<in> {Role_ADMIN, Role_SUPERVISOR, Role_INTERVENTORIA}"
  then have al: "role actor \<in> ALLOWED_LIST_ROLES" by (simp add: ALLOWED_LIST_ROLES_def)
  show ?thesis
    using list_users_allowed[OF al, of "Some f" s]
      order_by_created_at_desc_sorted order_by_created_at_desc_mset
    by (simp add: log_msg_def)
qed

theorem list_users_filters_amended_witness:
  "role root \<in> {Role_ADMIN, Role_SUPERVISOR, Role_INTERVENTORIA} \<and>
   fst (list_users (Some [(''role'', ''BOSS''), (''search'', '' ANA '')]) (Some root) world) =
     Inr [ana] \<and>
   mset [ana] =
     mset (filter (spec_listed [(''role'', ''BOSS''), (''search'', '' ANA '')]) (users world)) \<and>
   logger (snd (list_users (Some [(''role'', ''BOSS''), (''search'', '' ANA '')]) (Some root) world))
     = [(WARNING, ''list_users: invalid role''), (DEBUG, ''list_users: listed'')]"
proof -
  have h: "role root \<in> {Role_ADMIN, Role_SUPERVISOR, Role_INTERVENTORIA}"
    by (simp add: root_def Role_ADMIN_def)
  have c: "fst (list_users (Some [(''role'', ''BOSS''), (''search'', '' ANA '')]) (Some root) world)
     = Inr [ana]"
    by code_simp
  have w: "spec_filter_warnings [(''role'', ''BOSS''), (''search'', '' ANA '')] =
     [(WARNING, ''list_users: invalid role'')]"
    by (simp add: spec_filter_warnings_def dict_get_def)
  have l: "logger world = []" by (simp add: world_def)
  from list_users_filters_amended [OF h, of "[(''role'', ''BOSS''), (''search'', '' ANA '')]" world]
  obtain res s' where r:
    "list_users (Some [(''role'', ''BOSS''), (''search'', '' ANA '')]) (Some root) world = (Inr res, s')"
    "mset res = mset (filter (spec_listed [(''role'', ''BOSS''), (''search'', '' ANA '')]) (users world))"
    "logger s' = logger world @ spec_filter_warnings [(''role'', ''BOSS''), (''search'', '' ANA '')]
        @ [(DEBUG, ''list_users: listed'')]"
    by blast
  from r(1) c have "res = [ana]" by simp
  with r h c w l show ?thesis by simp
qed

section \<open>The audit record of an administrator's update\<close>



lemma User_save_fields:
  "User_save adding u s = (Inr u', s') \<Longrightarrow>
     role u' = role u \<and> status u' = status u \<and> email_primary u' = email_primary u \<and>
     user_id u' = user_id u \<and> u' \<in> set (users s')"
  by (auto simp: User_save_def Let_def split: if_splits)

lemma save_assigned_fields:
  "save_assigned cols d adding u s = (Inr u', s') \<Longrightarrow>
     role u' = role u \<and> status u' = status u \<and> email_primary u' = email_primary u \<and>
     user_id u' = user_id u \<and> u' \<in> set (users s')"
  by (auto simp: save_assigned_def split: if_splits dest: User_save_fields)






section \<open>Defaults of registration\<close>

lemma setattr_user_role_status:
  "setattr_user u k v = Inr u' \<Longrightarrow>
     role u' = (if k = ''role'' then v else role u) \<and>
     status u' = (if k = ''status'' then v else status u)"
  by (auto simp: setattr_user_def split: if_splits)

lemma hasattr_role_status: "hasattr_user ''role''" "hasattr_user ''status''"
  by (simp_all add: hasattr_user_def text_columns_def)

lemma setattrs_role_status:
  "distinct (map fst d) \<Longrightarrow> setattrs u d = Inr u' \<Longrightarrow>
     role u' = (case map_of d ''role'' of None \<Rightarrow> role u | Some r \<Rightarrow> r) \<and>
     status u' = (case map_of d ''status'' of None \<Rightarrow> status u | Some st \<Rightarrow> st)"
proof (induction d arbitrary: u)
  case Nil
  then show ?case by simp
next
  case (Cons kv kvs)
  obtain k v where kv: "kv = (k, v)" by (cases kv)
  have d: "distinct (map fst kvs)" and nk: "k \<notin> fst ` set kvs"
    using Cons.prems(1) kv by auto
  have nm: "map_of kvs k = None" using nk by (simp add: map_of_eq_None_iff)
  show ?case
  proof (cases "hasattr_user k")
    case False
    then have "k \<noteq> ''role''" "k \<noteq> ''status''" using hasattr_role_status by auto
    moreover have "setattrs u kvs = Inr u'" using Cons.prems(2) kv False by simp
    ultimately show ?thesis using Cons.IH[OF d] kv by auto
  next
    case True
    then obtain u1 where u1: "setattr_user u k v = Inr u1" "setattrs u1 kvs = Inr u'"
      using Cons.prems(2) kv by (auto split: sum.splits)
    from Cons.IH[OF d u1(2)] setattr_user_role_status[OF u1(1)] nm kv
    show ?thesis by (auto split: option.splits)
  qed
qed

lemma map_of_dict_pop:
  "map_of (snd (dict_pop k d)) k' = (if k' = k then None else map_of d k')"
  unfolding dict_pop_def by (induction d) auto

lemma distinct_dict_pop: "distinct (map fst d) \<Longrightarrow> distinct (map fst (snd (dict_pop k d)))"
  unfolding dict_pop_def by (simp add: distinct_map_filter)

lemma map_of_dict_setdefault:
  "map_of (dict_setdefault k v d) k' =
     (if k' = k then (case map_of d k of None \<Rightarrow> Some v | Some x \<Rightarrow> Some x) else map_of d k')"
proof (cases "k \<in> fst ` set d")
  case True
  then obtain x where "map_of d k = Some x"
    by (metis map_of_eq_None_iff not_None_eq)
  then show ?thesis using True by (simp add: dict_setdefault_def)
next
  case False
  then have "map_of d k = None" by (simp add: map_of_eq_None_iff)
  then show ?thesis using False
    by (auto simp: dict_setdefault_def map_add_def split: option.splits)
qed

lemma distinct_dict_setdefault:
  "distinct (map fst d) \<Longrightarrow> distinct (map fst (dict_setdefault k v d))"
  by (auto simp: dict_setdefault_def)

lemma create_user_role_status:
  assumes "create_user email pw extra s = (Inr u, s')" "distinct (map fst extra)"
    "''email_primary'' \<notin> fst ` set extra"
  shows "role u = (case map_of extra ''role'' of None \<Rightarrow> Role_CLIENT | Some r \<Rightarrow> r) \<and>
         status u = (case map_of extra ''status'' of None \<Rightarrow> Status_ACTIVE | Some st \<Rightarrow> st) \<and>
         u \<in> set (users s')"
proof -
  let ?kw = "(''email_primary'', normalize_email email) # extra"
  from assms(1) obtain u0 where
    i: "User_init (fresh_id (map user_id (users s))) ?kw = Inr u0"
    and sv: "save_assigned [''last_login_at''] extra True
               (if truthy pw then set_password u0 (the pw) else u0) s = (Inr u, s')"
    by (auto simp: create_user_def split: if_splits sum.splits)
  from i have sa: "setattrs (User_default (fresh_id (map user_id (users s)))) ?kw = Inr u0"
    by (auto simp: User_init_def split: if_splits)
  have dk: "distinct (map fst ?kw)" using assms(2,3) by auto
  have df: "role (User_default (fresh_id (map user_id (users s)))) = Role_CLIENT"
    "status (User_default (fresh_id (map user_id (users s)))) = Status_ACTIVE"
    by (simp_all add: User_default_def)
  from setattrs_role_status[OF dk sa]
  have "role u0 = (case map_of extra ''role'' of None \<Rightarrow> Role_CLIENT | Some r \<Rightarrow> r)"
    "status u0 = (case map_of extra ''status'' of None \<Rightarrow> Status_ACTIVE | Some st \<Rightarrow> st)"
    unfolding df by simp_all
  then show ?thesis using save_assigned_fields[OF sv] by (auto simp: set_password_def)
qed

text \<open>
  Claim C10. \<open>register_user\<close> gives the role \<open>CLIENT\<close> and the status \<open>ACTIVE\<close> only to a
  dictionary that lacks the key: whenever it succeeds, the created user, which is then a
  row of the table, has the role the dictionary carries under \<open>role\<close> and \<open>CLIENT\<close> when it
  carries none, and the status it carries under \<open>status\<close> and \<open>ACTIVE\<close> when it carries
  none. A dictionary has each key once.
\<close>

theorem register_user_defaults:
  assumes "distinct (map fst data)" and "register_user data ip s = (Inr u, s')"
  shows "role u = (case dict_get data ''role'' of None \<Rightarrow> Role_CLIENT | Some r \<Rightarrow> r) \<and>
         status u = (case dict_get data ''status'' of None \<Rightarrow> Status_ACTIVE | Some st \<Rightarrow> st) \<and>
         u \<in> set (users s')"
proof -
  from assms(2) have t: "register_user_try data ip s = (Inr u, s')"
    by (auto simp: register_user_def split: prod.splits sum.splits if_splits)
  let ?d1 = "snd (dict_pop ''password'' data)"
  let ?d3 = "dict_setdefault ''status'' Status_ACTIVE (dict_setdefault ''role'' Role_CLIENT ?d1)"
  let ?d4 = "snd (dict_pop ''email_primary'' ?d3)"
  let ?pw = "fst (dict_pop ''password'' data)"
  from t obtain email s1 where
    cu: "create_user email ?pw ?d4 s = (Inr u, s1)"
    and s': "s' = log_msg INFO ''register_user: registered''
               (snd (log_audit_event (Some (user_id u)) USER_REGISTERED ''User''
                  (Some (user_id u))
                  (Some [(''email'', JStr (email_primary u)), (''role'', JStr (role u))]) ip s1))"
    by (auto simp: register_user_try_def Let_def
        split: prod.splits sum.splits if_splits option.splits)
  have d4: "distinct (map fst ?d4)"
    using assms(1) by (intro distinct_dict_pop distinct_dict_setdefault)
  have ne: "''email_primary'' \<notin> fst ` set ?d4"
    using map_of_dict_pop[of "''email_primary''" ?d3 "''email_primary''"]
    by (simp add: map_of_eq_None_iff)
  have r: "map_of ?d4 ''role'' = Some (case map_of data ''role'' of None \<Rightarrow> Role_CLIENT | Some r \<Rightarrow> r)"
    by (simp add: map_of_dict_pop map_of_dict_setdefault split: option.splits)
  have st: "map_of ?d4 ''status'' =
      Some (case map_of data ''status'' of None \<Rightarrow> Status_ACTIVE | Some x \<Rightarrow> x)"
    by (simp add: map_of_dict_pop map_of_dict_setdefault split: option.splits)
  have us: "users s' = users s1"
    unfolding s' by (simp add: log_msg_def log_audit_event_users[OF surjective_pairing])
  from create_user_role_status[OF cu d4 ne] r st us
  show ?thesis by (simp add: dict_get_def)
qed

theorem register_user_defaults_witness:
  "distinct (map fst [(''email_primary'', ''bea@x.com''), (''password'', ''Secr3t!23''),
      (''full_name'', ''Bea Paz''), (''id_type'', ''CC''), (''id_number'', ''789''),
      (''phone'', ''3222222222''), (''birth_date'', ''1991-03-03'')]) \<and>
   role (projr (fst (register_user [(''email_primary'', ''bea@x.com''), (''password'', ''Secr3t!23''),
      (''full_name'', ''Bea Paz''), (''id_type'', ''CC''), (''id_number'', ''789''),
      (''phone'', ''3222222222''), (''birth_date'', ''1991-03-03'')] None world))) = ''CLIENT'' \<and>
   status (projr (fst (register_user [(''email_primary'', ''bea@x.com''), (''password'', ''Secr3t!23''),
      (''full_name'', ''Bea Paz''), (''id_type'', ''CC''), (''id_number'', ''789''),
      (''phone'', ''3222222222''), (''birth_date'', ''1991-03-03'')] None world))) = ''ACTIVE'' \<and>
   distinct (map fst [(''email_primary'', ''bea@x.com''), (''password'', ''Secr3t!23''),
      (''full_name'', ''Bea Paz''), (''id_type'', ''CC''), (''id_number'', ''789''),
      (''phone'', ''3222222222''), (''birth_date'', ''1991-03-03''), (''role'', ''ADMIN'')]) \<and>
   role (projr (fst (register_user [(''email_primary'', ''bea@x.com''), (''password'', ''Secr3t!23''),
      (''full_name'', ''Bea Paz''), (''id_type'', ''CC''), (''id_number'', ''789''),
      (''phone'', ''3222222222''), (''birth_date'', ''1991-03-03''), (''role'', ''ADMIN'')]
      None world))) = ''ADMIN''"
proof -
  let ?d = "[(''email_primary'', ''bea@x.com''), (''password'', ''Secr3t!23''),
      (''full_name'', ''Bea Paz''), (''id_type'', ''CC''), (''id_number'', ''789''),
      (''phone'', ''3222222222''), (''birth_date'', ''1991-03-03'')]"
  let ?e = "?d @ [(''role'', ''ADMIN'')]"
  have ok1: "isl (fst (register_user ?d None world)) = False" by code_simp
  have ok2: "isl (fst (register_user ?e None world)) = False" by code_simp
  have h1: "register_user ?d None world =
      (Inr (projr (fst (register_user ?d None world))), snd (register_user ?d None world))"
    using ok1 by (metis prod.collapse sum.collapse(2))
  have h2: "register_user ?e None world =
      (Inr (projr (fst (register_user ?e None world))), snd (register_user ?e None world))"
    using ok2 by (metis prod.collapse sum.collapse(2))
  have d1: "distinct (map fst ?d)" by simp
  have d2: "distinct (map fst ?e)" by simp
  show ?thesis
    using register_user_defaults [OF d1 h1] register_user_defaults [OF d2 h2]
    by (simp add: dict_get_def Role_CLIENT_def Status_ACTIVE_def)
qed

section \<open>Registering an email that is already stored\<close>




















section \<open>Failed logins\<close>








end
